theory Spec2Isabelle
  imports Complex_Main
begin

section \<open>JavaScript Numbers\<close>

text \<open>
  The \<^verbatim>\<open>quantity\<close> of a product and the \<^verbatim>\<open>quantityToReduce\<close> of a request are
  Numbers of JavaScript: IEEE 754 binary64 values. \<open>Num r\<close> is the finite double
  of value \<open>r\<close>; the two zeros are not told apart, since \<^verbatim>\<open><\<close>, \<^verbatim>\<open>-\<close> and
  \<^verbatim>\<open>JSON.stringify\<close> do not tell them apart either. NaN is not a value of the
  type: a JSON body cannot carry it and Mongoose refuses to store it, so it
  only occurs as the result of a subtraction, where it is \<open>None\<close>.
\<close>

datatype number = Num rat | PosInfinity | NegInfinity

text \<open>The number of binary digits of a natural number.\<close>

function bit_length :: "nat \<Rightarrow> nat" where
  "bit_length n = (if n = 0 then 0 else Suc (bit_length (n div 2)))"
  by pat_completeness auto
termination
  by (relation "measure id") auto

declare bit_length.simps [simp del]

definition pow2 :: "int \<Rightarrow> rat" where
  "pow2 e = (if 0 \<le> e then 2 ^ nat e else 1 / 2 ^ nat (- e))"

text \<open>For \<open>0 < a\<close>, the exponent \<open>e\<close> with \<open>pow2 e \<le> a < pow2 (e + 1)\<close>.\<close>

definition floor_log2 :: "rat \<Rightarrow> int" where
  "floor_log2 a =
     (if 1 \<le> a then int (bit_length (nat \<lfloor>a\<rfloor>)) - 1
      else - int (bit_length (nat (\<lceil>1 / a\<rceil> - 1))))"

text \<open>Rounding to the nearest integer, a tie going to the even one.\<close>

definition round_half_even :: "rat \<Rightarrow> int" where
  "round_half_even x =
     (let f = \<lfloor>x\<rfloor>; d = x - of_int f
      in if d < 1 / 2 then f else if 1 / 2 < d then f + 1 else if even f then f else f + 1)"

text \<open>
  The exponent of the last place of the doubles around \<open>a\<close>: 53 significant
  bits, and never below the exponent of the subnormal numbers.
\<close>

definition ulp_exponent :: "rat \<Rightarrow> int" where
  "ulp_exponent a = max (floor_log2 a - 52) (- 1074)"

definition round_at :: "int \<Rightarrow> rat \<Rightarrow> rat" where
  "round_at q a = of_int (round_half_even (a / pow2 q)) * pow2 q"

text \<open>
  The double that an exact result is rounded to (round to nearest, ties to
  even); a magnitude that rounds to \<open>2 ^ 1024\<close> or more is an infinity.
\<close>

definition to_double :: "rat \<Rightarrow> number" where
  "to_double r =
     (if r = 0 then Num 0
      else
        let v = round_at (ulp_exponent \<bar>r\<bar>) \<bar>r\<bar>
        in if pow2 1024 \<le> v then (if 0 < r then PosInfinity else NegInfinity)
           else Num (if 0 < r then v else - v))"

text \<open>A rational number is a double when rounding leaves it as it is.\<close>

definition representable :: "rat \<Rightarrow> bool" where
  "representable r \<longleftrightarrow> to_double r = Num r"

text \<open>The operator \<^verbatim>\<open><\<close> on two Numbers.\<close>

fun js_lt :: "number \<Rightarrow> number \<Rightarrow> bool" where
  "js_lt (Num a) (Num b) \<longleftrightarrow> a < b"
| "js_lt (Num a) PosInfinity \<longleftrightarrow> True"
| "js_lt (Num a) NegInfinity \<longleftrightarrow> False"
| "js_lt PosInfinity y \<longleftrightarrow> False"
| "js_lt NegInfinity (Num b) \<longleftrightarrow> True"
| "js_lt NegInfinity PosInfinity \<longleftrightarrow> True"
| "js_lt NegInfinity NegInfinity \<longleftrightarrow> False"

text \<open>The relation \<^verbatim>\<open><=\<close> on two Numbers.\<close>

fun js_le :: "number \<Rightarrow> number \<Rightarrow> bool" where
  "js_le (Num a) (Num b) \<longleftrightarrow> a \<le> b"
| "js_le (Num a) PosInfinity \<longleftrightarrow> True"
| "js_le (Num a) NegInfinity \<longleftrightarrow> False"
| "js_le PosInfinity PosInfinity \<longleftrightarrow> True"
| "js_le PosInfinity y \<longleftrightarrow> False"
| "js_le NegInfinity y \<longleftrightarrow> True"

text \<open>
  The operator \<^verbatim>\<open>-\<close> on two Numbers; \<open>None\<close> is NaN, the difference of two
  equal infinities.
\<close>

fun js_sub :: "number \<Rightarrow> number \<Rightarrow> number option" where
  "js_sub (Num a) (Num b) = Some (to_double (a - b))"
| "js_sub (Num a) PosInfinity = Some NegInfinity"
| "js_sub (Num a) NegInfinity = Some PosInfinity"
| "js_sub PosInfinity PosInfinity = None"
| "js_sub PosInfinity y = Some PosInfinity"
| "js_sub NegInfinity NegInfinity = None"
| "js_sub NegInfinity y = Some NegInfinity"

section \<open>Values and documents\<close>

text \<open>
  The JSON values that \<^verbatim>\<open>res.json\<close> sends. An ObjectId and a Date are kept as
  constructors of their own (\<open>JOid\<close>, \<open>JDate\<close>) instead of their printed form
  (24 hexadecimal digits, an ISO-8601 string), and so is a Number field:
  \<open>JDouble x\<close> is what \<^verbatim>\<open>JSON.stringify\<close> prints for the double \<open>x\<close> (its decimal
  form, or \<^verbatim>\<open>null\<close> for an infinity). \<open>JNum\<close> is an integer literal: prices,
  purchase prices and totals are only stored and returned, never computed
  with, and are kept as integers.
\<close>

datatype json =
    JNull
  | JBool bool
  | JNum int
  | JDouble number
  | JStr string
  | JOid nat
  | JDate int
  | JArr "json list"
  | JObj "(string \<times> json) list"

type_synonym oid = nat

text \<open>What a rejected Mongoose call throws; every handler catches it and answers 500.\<close>

datatype mongo_error = CastError | ValidationError | DuplicateKeyError

text \<open>\<^verbatim>\<open>userSchema\<close> (server.js, lines 26-31), with the \<^verbatim>\<open>_id\<close> every document carries.\<close>

record user_doc =
  u_oid :: oid
  username :: string
  email :: string
  password :: string
  phone :: string

text \<open>\<^verbatim>\<open>productSchema\<close> (lines 36-44); \<^verbatim>\<open>type\<close> and \<^verbatim>\<open>rack\<close> may be absent.\<close>

record product_doc =
  p_oid :: oid
  product_id :: string
  name :: string
  ptype :: "string option"
  price :: int
  purchasePrice :: int
  quantity :: number
  rack :: "string option"

text \<open>\<^verbatim>\<open>purchaseSchema\<close> (lines 49-59): a nested \<^verbatim>\<open>customer\<close> whose four strings are all optional.\<close>

record customer_info =
  c_name :: "string option"
  c_place :: "string option"
  c_phone :: "string option"
  c_address :: "string option"

record purchase_doc =
  pu_oid :: oid
  customer :: customer_info
  products :: "json list"
  total :: "int option"
  date :: int

text \<open>
  The three collections behind the models \<^verbatim>\<open>User\<close>, \<^verbatim>\<open>Product\<close> and \<^verbatim>\<open>Purchase\<close>,
  each in insertion order (the order an unsorted \<^verbatim>\<open>find\<close> returns).
\<close>

record db =
  User :: "user_doc list"
  Product :: "product_doc list"
  Purchase :: "purchase_doc list"

type_synonym response = "nat \<times> json"

definition message :: "string \<Rightarrow> json" where
  "message s = JObj [(''message'', JStr s)]"

definition error :: "string \<Rightarrow> json" where
  "error s = JObj [(''error'', JStr s)]"

section \<open>The persistence layer (Mongoose)\<close>

text \<open>
  \<^verbatim>\<open>new Model(...)\<close> gives the document an ObjectId that no stored document has.
\<close>

definition new_oid :: "oid list \<Rightarrow> oid" where
  "new_oid ids = Suc (foldr max ids 0)"

text \<open>
  \<^verbatim>\<open>required: true\<close> on a String path: Mongoose's required validator rejects a
  missing value and the empty string.
\<close>

definition required_string :: "string \<Rightarrow> bool" where
  "required_string s \<longleftrightarrow> s \<noteq> []"

definition validate_user :: "user_doc \<Rightarrow> bool" where
  "validate_user u \<longleftrightarrow>
     required_string (username u) \<and> required_string (email u) \<and>
     required_string (password u) \<and> required_string (phone u)"

text \<open>
  \<^verbatim>\<open>newUser.save()\<close>: validation first, then the insert, which the unique indexes on
  \<^verbatim>\<open>username\<close> and \<^verbatim>\<open>email\<close> (and on \<^verbatim>\<open>_id\<close>) may reject.
\<close>

definition save_new_user :: "user_doc \<Rightarrow> db \<Rightarrow> mongo_error + db" where
  "save_new_user u d =
     (if \<not> validate_user u then Inl ValidationError
      else if u_oid u \<in> set (map u_oid (User d))
            \<or> username u \<in> set (map username (User d))
            \<or> email u \<in> set (map email (User d)) then Inl DuplicateKeyError
      else Inr (d\<lparr>User := User d @ [u]\<rparr>))"

text \<open>A projection that excludes fields, as \<^verbatim>\<open>{ password: 0 }\<close> does.\<close>

definition exclude_fields :: "string list \<Rightarrow> (string \<times> json) list \<Rightarrow> (string \<times> json) list" where
  "exclude_fields ks fs = filter (\<lambda>(k, v). k \<notin> set ks) fs"

definition user_fields :: "user_doc \<Rightarrow> (string \<times> json) list" where
  "user_fields u =
     [(''_id'', JOid (u_oid u)), (''username'', JStr (username u)),
      (''email'', JStr (email u)), (''password'', JStr (password u)),
      (''phone'', JStr (phone u)), (''__v'', JNum 0)]"

section \<open>User handlers\<close>

text \<open>\<^verbatim>\<open>POST /api/signup\<close> (lines 64-78); the four arguments are the destructured body.\<close>

definition signup :: "string \<Rightarrow> string \<Rightarrow> string \<Rightarrow> string \<Rightarrow> db \<Rightarrow> response \<times> db" where
  "signup b_username b_email b_password b_phone d =
     (case find (\<lambda>u. email u = b_email \<or> username u = b_username) (User d) of
        Some existingUser \<Rightarrow> ((400, message ''User already exists''), d)
      | None \<Rightarrow>
          (let newUser = \<lparr>u_oid = new_oid (map u_oid (User d)), username = b_username,
                          email = b_email, password = b_password, phone = b_phone\<rparr>
           in case save_new_user newUser d of
                Inl err \<Rightarrow> ((500, error ''Signup failed''), d)
              | Inr d' \<Rightarrow> ((201, message ''Signup successful''), d')))"

text \<open>\<^verbatim>\<open>POST /api/login\<close> (lines 81-96).\<close>

definition login :: "string \<Rightarrow> string \<Rightarrow> db \<Rightarrow> response \<times> db" where
  "login b_username b_password d =
     (case find (\<lambda>u. username u = b_username) (User d) of
        None \<Rightarrow> ((400, message ''User not found''), d)
      | Some user \<Rightarrow>
          if password user \<noteq> b_password then ((401, message ''Invalid credentials''), d)
          else ((200, message ''Login successful''), d))"

text \<open>\<^verbatim>\<open>GET /api/users\<close> (lines 99-107): \<^verbatim>\<open>User.find({}, { password: 0 })\<close>.\<close>

definition list_users :: "db \<Rightarrow> response \<times> db" where
  "list_users d =
     ((200, JArr (map (\<lambda>u. JObj (exclude_fields [''password''] (user_fields u))) (User d))), d)"

section \<open>Product persistence\<close>

text \<open>
  Casting a route parameter to an ObjectId, as \<^verbatim>\<open>findByIdAndDelete\<close> and
  \<^verbatim>\<open>findByIdAndUpdate\<close> do with their first argument: the string form of an
  ObjectId is 24 hexadecimal digits, in either case; any other string is a
  CastError.
\<close>

definition hex_digit :: "char \<Rightarrow> nat option" where
  "hex_digit c =
     (let n = (of_char c :: nat)
      in if 48 \<le> n \<and> n \<le> 57 then Some (n - 48)
         else if 97 \<le> n \<and> n \<le> 102 then Some (n - 87)
         else if 65 \<le> n \<and> n \<le> 70 then Some (n - 55)
         else None)"

fun hex_value :: "nat \<Rightarrow> string \<Rightarrow> nat option" where
  "hex_value acc [] = Some acc"
| "hex_value acc (c # cs) =
     (case hex_digit c of None \<Rightarrow> None | Some v \<Rightarrow> hex_value (16 * acc + v) cs)"

definition castObjectId :: "string \<Rightarrow> oid option" where
  "castObjectId s = (if length s = 24 then hex_value 0 s else None)"

text \<open>The first element that satisfies \<open>P\<close> is replaced; a write to one document.\<close>

fun update_first :: "('a \<Rightarrow> bool) \<Rightarrow> ('a \<Rightarrow> 'a) \<Rightarrow> 'a list \<Rightarrow> 'a list" where
  "update_first P f [] = []"
| "update_first P f (x # xs) = (if P x then f x # xs else x # update_first P f xs)"

fun delete_first :: "('a \<Rightarrow> bool) \<Rightarrow> 'a list \<Rightarrow> 'a list" where
  "delete_first P [] = []"
| "delete_first P (x # xs) = (if P x then xs else x # delete_first P xs)"

text \<open>
  \<^verbatim>\<open>Product.findByIdAndDelete(id)\<close>: the deleted document, or null (\<open>None\<close>) when no
  document has that \<^verbatim>\<open>_id\<close>.
\<close>

definition findByIdAndDelete ::
  "string \<Rightarrow> product_doc list \<Rightarrow> mongo_error + (product_doc option \<times> product_doc list)" where
  "findByIdAndDelete idp ps =
     (case castObjectId idp of
        None \<Rightarrow> Inl CastError
      | Some i \<Rightarrow> Inr (find (\<lambda>p. p_oid p = i) ps, delete_first (\<lambda>p. p_oid p = i) ps))"

text \<open>\<^verbatim>\<open>Product.findOneAndDelete({ product_id })\<close>.\<close>

definition findOneAndDelete_product_id ::
  "string \<Rightarrow> product_doc list \<Rightarrow> product_doc option \<times> product_doc list" where
  "findOneAndDelete_product_id k ps =
     (find (\<lambda>p. product_id p = k) ps, delete_first (\<lambda>p. product_id p = k) ps)"

text \<open>
  The update document \<^verbatim>\<open>{ quantity, name, price, purchasePrice, type, rack }\<close>: a key
  whose value is \<^verbatim>\<open>undefined\<close> is \<open>None\<close>. Mongoose (6 and later) removes such keys
  from an update before it is sent, so only the keys with a value are set.
  Update validators are off by default, so nothing is validated here.
\<close>

record product_update =
  set_quantity :: "number option"
  set_name :: "string option"
  set_price :: "int option"
  set_purchasePrice :: "int option"
  set_type :: "string option"
  set_rack :: "string option"

definition apply_update :: "product_update \<Rightarrow> product_doc \<Rightarrow> product_doc" where
  "apply_update upd p =
     p\<lparr>quantity := (case set_quantity upd of None \<Rightarrow> quantity p | Some v \<Rightarrow> v),
       name := (case set_name upd of None \<Rightarrow> name p | Some v \<Rightarrow> v),
       price := (case set_price upd of None \<Rightarrow> price p | Some v \<Rightarrow> v),
       purchasePrice := (case set_purchasePrice upd of None \<Rightarrow> purchasePrice p | Some v \<Rightarrow> v),
       ptype := (case set_type upd of None \<Rightarrow> ptype p | Some v \<Rightarrow> Some v),
       rack := (case set_rack upd of None \<Rightarrow> rack p | Some v \<Rightarrow> Some v)\<rparr>"

text \<open>
  \<^verbatim>\<open>Product.findByIdAndUpdate(id, update, { new: true })\<close>: the document after the
  update, or null when no document has that \<^verbatim>\<open>_id\<close>; no upsert.
\<close>

definition findByIdAndUpdate ::
  "string \<Rightarrow> product_update \<Rightarrow> product_doc list \<Rightarrow>
   mongo_error + (product_doc option \<times> product_doc list)" where
  "findByIdAndUpdate idp upd ps =
     (case castObjectId idp of
        None \<Rightarrow> Inl CastError
      | Some i \<Rightarrow>
          Inr (map_option (apply_update upd) (find (\<lambda>p. p_oid p = i) ps),
               update_first (\<lambda>p. p_oid p = i) (apply_update upd) ps))"

text \<open>
  \<^verbatim>\<open>new Product({...})\<close> followed by the validation of \<^verbatim>\<open>save()\<close>: \<^verbatim>\<open>product_id\<close>,
  \<^verbatim>\<open>name\<close>, \<^verbatim>\<open>price\<close> and \<^verbatim>\<open>quantity\<close> are required, \<^verbatim>\<open>purchasePrice\<close> defaults to 0.
\<close>

definition new_Product ::
  "oid \<Rightarrow> string option \<Rightarrow> string option \<Rightarrow> string option \<Rightarrow> int option \<Rightarrow> int option \<Rightarrow>
   number option \<Rightarrow> string option \<Rightarrow> mongo_error + product_doc" where
  "new_Product i b_product_id b_name b_type b_price b_purchasePrice b_quantity b_rack =
     (case (b_product_id, b_name, b_price, b_quantity) of
        (Some k, Some n, Some pr, Some q) \<Rightarrow>
          if required_string k \<and> required_string n
          then Inr \<lparr>p_oid = i, product_id = k, name = n, ptype = b_type, price = pr,
                    purchasePrice = (case b_purchasePrice of None \<Rightarrow> 0 | Some v \<Rightarrow> v),
                    quantity = q, rack = b_rack\<rparr>
          else Inl ValidationError
      | _ \<Rightarrow> Inl ValidationError)"

text \<open>The insert of a new product; the unique index on \<^verbatim>\<open>product_id\<close> may reject it.\<close>

definition insert_product :: "product_doc \<Rightarrow> db \<Rightarrow> mongo_error + db" where
  "insert_product p d =
     (if p_oid p \<in> set (map p_oid (Product d))
         \<or> product_id p \<in> set (map product_id (Product d)) then Inl DuplicateKeyError
      else Inr (d\<lparr>Product := Product d @ [p]\<rparr>))"

definition validate_product :: "product_doc \<Rightarrow> bool" where
  "validate_product p \<longleftrightarrow> required_string (product_id p) \<and> required_string (name p)"

text \<open>
  The assignment of a new value to \<^verbatim>\<open>product.quantity\<close>, on a document that was
  read from the collection, followed by \<^verbatim>\<open>product.save()\<close>. Assigning NaN is a
  cast error that \<^verbatim>\<open>save()\<close> reports; otherwise the whole document is validated
  (also the paths that were not assigned), then the modified path is written
  to the stored document with the same \<^verbatim>\<open>_id\<close>.
\<close>

definition save_quantity :: "product_doc \<Rightarrow> number option \<Rightarrow> db \<Rightarrow> mongo_error + db" where
  "save_quantity p assigned d =
     (case assigned of
        None \<Rightarrow> Inl ValidationError
      | Some n \<Rightarrow>
          if \<not> validate_product p then Inl ValidationError
          else Inr (d\<lparr>Product :=
                        update_first (\<lambda>r. p_oid r = p_oid p) (\<lambda>r. r\<lparr>quantity := n\<rparr>)
                          (Product d)\<rparr>))"

definition optional_field :: "string \<Rightarrow> json option \<Rightarrow> (string \<times> json) list" where
  "optional_field k v = (case v of None \<Rightarrow> [] | Some j \<Rightarrow> [(k, j)])"

definition product_fields :: "product_doc \<Rightarrow> (string \<times> json) list" where
  "product_fields p =
     [(''_id'', JOid (p_oid p)), (''product_id'', JStr (product_id p)),
      (''name'', JStr (name p))]
     @ optional_field ''type'' (map_option JStr (ptype p))
     @ [(''price'', JNum (price p)), (''purchasePrice'', JNum (purchasePrice p)),
        (''quantity'', JDouble (quantity p))]
     @ optional_field ''rack'' (map_option JStr (rack p))
     @ [(''__v'', JNum 0)]"

section \<open>Product handlers\<close>

text \<open>\<^verbatim>\<open>DELETE /api/products/:id\<close>, first registration (lines 110-118).\<close>

definition deleteProductById :: "string \<Rightarrow> db \<Rightarrow> response \<times> db" where
  "deleteProductById idp d =
     (case findByIdAndDelete idp (Product d) of
        Inl err \<Rightarrow> ((500, message ''Server error''), d)
      | Inr (None, ps) \<Rightarrow> ((404, message ''Product not found''), d)
      | Inr (Some product, ps) \<Rightarrow>
          ((200, message ''Product deleted successfully''), d\<lparr>Product := ps\<rparr>))"

text \<open>\<^verbatim>\<open>POST /api/products\<close> (lines 121-141).\<close>

definition addProduct ::
  "string option \<Rightarrow> string option \<Rightarrow> string option \<Rightarrow> int option \<Rightarrow> int option \<Rightarrow>
   number option \<Rightarrow> string option \<Rightarrow> db \<Rightarrow> response \<times> db" where
  "addProduct b_product_id b_name b_type b_price b_purchasePrice b_quantity b_rack d =
     (case new_Product (new_oid (map p_oid (Product d)))
             b_product_id b_name b_type b_price b_purchasePrice b_quantity b_rack of
        Inl err \<Rightarrow> ((500, error ''Failed to add product''), d)
      | Inr newProduct \<Rightarrow>
          (case insert_product newProduct d of
             Inl err \<Rightarrow> ((500, error ''Failed to add product''), d)
           | Inr d' \<Rightarrow> ((201, message ''Product added successfully''), d')))"

text \<open>\<^verbatim>\<open>GET /api/products\<close> (lines 144-152).\<close>

definition list_products :: "db \<Rightarrow> response \<times> db" where
  "list_products d = ((200, JArr (map (\<lambda>p. JObj (product_fields p)) (Product d))), d)"

text \<open>
  \<^verbatim>\<open>PUT /api/products/update/:id\<close> (lines 166-185). The destructuring gives
  \<^verbatim>\<open>purchasePrice\<close> the default 0 when the body has none.
\<close>

definition updateProduct ::
  "string \<Rightarrow> number option \<Rightarrow> string option \<Rightarrow> int option \<Rightarrow> int option \<Rightarrow> string option \<Rightarrow>
   string option \<Rightarrow> db \<Rightarrow> response \<times> db" where
  "updateProduct idp b_quantity b_name b_price b_purchasePrice b_type b_rack d =
     (let purchasePrice' = (case b_purchasePrice of None \<Rightarrow> 0 | Some v \<Rightarrow> v)
      in case findByIdAndUpdate idp
                \<lparr>set_quantity = b_quantity, set_name = b_name, set_price = b_price,
                 set_purchasePrice = Some purchasePrice', set_type = b_type,
                 set_rack = b_rack\<rparr> (Product d) of
           Inl err \<Rightarrow> ((500, error ''Failed to update product''), d)
         | Inr (None, ps) \<Rightarrow> ((404, error ''Product not found''), d)
         | Inr (Some updatedProduct, ps) \<Rightarrow>
             ((200, JObj [(''message'', JStr ''Product updated successfully''),
                          (''product'', JObj (product_fields updatedProduct))]),
              d\<lparr>Product := ps\<rparr>))"

text \<open>\<^verbatim>\<open>PUT /api/products/:id\<close> (lines 188-210).\<close>

definition reduceQuantity :: "string \<Rightarrow> number \<Rightarrow> db \<Rightarrow> response \<times> db" where
  "reduceQuantity idp quantityToReduce d =
     (case find (\<lambda>p. product_id p = idp) (Product d) of
        None \<Rightarrow> ((404, error ''Product not found''), d)
      | Some product \<Rightarrow>
          if js_lt (quantity product) quantityToReduce
          then ((400, error ''Insufficient quantity''), d)
          else (case save_quantity product
                       (js_sub (quantity product) quantityToReduce) d of
                  Inl err \<Rightarrow> ((500, error ''Failed to update quantity''), d)
                | Inr d' \<Rightarrow> ((200, message ''Quantity updated successfully''), d')))"

text \<open>\<^verbatim>\<open>DELETE /api/products/:id\<close>, second registration (lines 213-224).\<close>

definition deleteProductByProductId :: "string \<Rightarrow> db \<Rightarrow> response \<times> db" where
  "deleteProductByProductId idp d =
     (case findOneAndDelete_product_id idp (Product d) of
        (None, ps) \<Rightarrow> ((404, error ''Product not found''), d)
      | (Some deleted, ps) \<Rightarrow>
          ((200, message ''Product removed successfully''), d\<lparr>Product := ps\<rparr>))"

section \<open>Purchases\<close>

text \<open>
  The body of \<^verbatim>\<open>POST /api/purchases\<close>, read through \<^verbatim>\<open>purchaseSchema\<close>: each of the
  four paths may be missing.
\<close>

record purchase_body =
  b_customer :: "customer_info option"
  b_products :: "json list option"
  b_total :: "int option"
  b_date :: "int option"

definition no_customer :: customer_info where
  "no_customer = \<lparr>c_name = None, c_place = None, c_phone = None, c_address = None\<rparr>"

text \<open>
  \<^verbatim>\<open>new Purchase(req.body)\<close>: the paths of the body are copied; a missing array is
  the empty array, and a missing \<^verbatim>\<open>date\<close> is \<^verbatim>\<open>Date.now()\<close>, which is the argument
  \<open>now\<close> (milliseconds since the epoch).
\<close>

definition new_Purchase :: "oid \<Rightarrow> int \<Rightarrow> purchase_body \<Rightarrow> purchase_doc" where
  "new_Purchase i now body =
     \<lparr>pu_oid = i,
      customer = (case b_customer body of None \<Rightarrow> no_customer | Some c \<Rightarrow> c),
      products = (case b_products body of None \<Rightarrow> [] | Some ps \<Rightarrow> ps),
      total = b_total body,
      date = (case b_date body of None \<Rightarrow> now | Some t \<Rightarrow> t)\<rparr>"

definition insert_purchase :: "purchase_doc \<Rightarrow> db \<Rightarrow> mongo_error + db" where
  "insert_purchase p d =
     (if pu_oid p \<in> set (map pu_oid (Purchase d)) then Inl DuplicateKeyError
      else Inr (d\<lparr>Purchase := Purchase d @ [p]\<rparr>))"

definition customer_fields :: "customer_info \<Rightarrow> (string \<times> json) list" where
  "customer_fields c =
     optional_field ''name'' (map_option JStr (c_name c))
     @ optional_field ''place'' (map_option JStr (c_place c))
     @ optional_field ''phone'' (map_option JStr (c_phone c))
     @ optional_field ''address'' (map_option JStr (c_address c))"

definition purchase_fields :: "purchase_doc \<Rightarrow> (string \<times> json) list" where
  "purchase_fields p =
     [(''_id'', JOid (pu_oid p)), (''customer'', JObj (customer_fields (customer p))),
      (''products'', JArr (products p))]
     @ optional_field ''total'' (map_option JNum (total p))
     @ [(''date'', JDate (date p)), (''__v'', JNum 0)]"

text \<open>\<^verbatim>\<open>POST /api/purchases\<close> (lines 227-236).\<close>

definition savePurchase :: "purchase_body \<Rightarrow> int \<Rightarrow> db \<Rightarrow> response \<times> db" where
  "savePurchase body now d =
     (let newPurchase = new_Purchase (new_oid (map pu_oid (Purchase d))) now body
      in case insert_purchase newPurchase d of
           Inl err \<Rightarrow> ((500, error ''Failed to save purchase''), d)
         | Inr d' \<Rightarrow> ((201, message ''Purchase saved successfully''), d'))"

text \<open>\<^verbatim>\<open>GET /api/purchases\<close> (lines 155-163).\<close>

definition list_purchases :: "db \<Rightarrow> response \<times> db" where
  "list_purchases d = ((200, JArr (map (\<lambda>p. JObj (purchase_fields p)) (Purchase d))), d)"

section \<open>The router\<close>

text \<open>
  Express keeps the routes in the order of their registration and gives a
  request to the first one whose method and path pattern match. No handler of
  this application calls \<^verbatim>\<open>next\<close>, so no later route sees the request. A path is
  the list of its segments; a literal segment is compared without regard to
  case, and a parameter takes any non-empty segment.
\<close>

datatype http_method = GET | POST | PUT | DELETE

datatype segment = Lit string | Param string

datatype handler =
    Signup | Login | ListUsers | DeleteProductById | AddProduct | ListProducts
  | ListPurchases | UpdateProduct | ReduceQuantity | DeleteProductByProductId | SavePurchase

definition lower_char :: "char \<Rightarrow> char" where
  "lower_char c =
     (case map_of (zip ''ABCDEFGHIJKLMNOPQRSTUVWXYZ'' ''abcdefghijklmnopqrstuvwxyz'') c of
        Some l \<Rightarrow> l
      | None \<Rightarrow> c)"

fun match_path :: "segment list \<Rightarrow> string list \<Rightarrow> (string \<times> string) list option" where
  "match_path [] [] = Some []"
| "match_path (Lit l # pat) (x # xs) =
     (if map lower_char x = map lower_char l then match_path pat xs else None)"
| "match_path (Param k # pat) (x # xs) =
     (if x = [] then None else map_option ((#) (k, x)) (match_path pat xs))"
| "match_path _ _ = None"

text \<open>The routes of server.js, in the order of the \<^verbatim>\<open>app.METHOD\<close> calls.\<close>

definition routes :: "(http_method \<times> segment list \<times> handler) list" where
  "routes =
     [(POST, [Lit ''api'', Lit ''signup''], Signup),
      (POST, [Lit ''api'', Lit ''login''], Login),
      (GET, [Lit ''api'', Lit ''users''], ListUsers),
      (DELETE, [Lit ''api'', Lit ''products'', Param ''id''], DeleteProductById),
      (POST, [Lit ''api'', Lit ''products''], AddProduct),
      (GET, [Lit ''api'', Lit ''products''], ListProducts),
      (GET, [Lit ''api'', Lit ''purchases''], ListPurchases),
      (PUT, [Lit ''api'', Lit ''products'', Lit ''update'', Param ''id''], UpdateProduct),
      (PUT, [Lit ''api'', Lit ''products'', Param ''id''], ReduceQuantity),
      (DELETE, [Lit ''api'', Lit ''products'', Param ''id''], DeleteProductByProductId),
      (POST, [Lit ''api'', Lit ''purchases''], SavePurchase)]"

fun dispatch_in ::
  "(http_method \<times> segment list \<times> handler) list \<Rightarrow> http_method \<Rightarrow> string list \<Rightarrow>
   (handler \<times> (string \<times> string) list) option" where
  "dispatch_in [] m path = None"
| "dispatch_in ((m', pat, h) # rs) m path =
     (if m' = m
      then (case match_path pat path of
              Some params \<Rightarrow> Some (h, params)
            | None \<Rightarrow> dispatch_in rs m path)
      else dispatch_in rs m path)"

definition dispatch :: "http_method \<Rightarrow> string list \<Rightarrow> (handler \<times> (string \<times> string) list) option" where
  "dispatch m path = dispatch_in routes m path"

text \<open>
  A DELETE request, from the router to the handler it reaches with
  \<^verbatim>\<open>req.params.id\<close>; \<open>None\<close> when no route of this application takes it.
\<close>

definition delete_request :: "string list \<Rightarrow> db \<Rightarrow> (response \<times> db) option" where
  "delete_request path d =
     (case dispatch DELETE path of
        Some (DeleteProductById, params) \<Rightarrow>
          map_option (\<lambda>idp. deleteProductById idp d) (map_of params ''id'')
      | Some (DeleteProductByProductId, params) \<Rightarrow>
          map_option (\<lambda>idp. deleteProductByProductId idp d) (map_of params ''id'')
      | _ \<Rightarrow> None)"

section \<open>Invariant of the Product collection\<close>

text \<open>
  What the unique indexes keep true of the Product collection: no two
  documents have the same \<^verbatim>\<open>_id\<close>, and no two the same \<^verbatim>\<open>product_id\<close>. Nothing
  is said about the other paths: \<^verbatim>\<open>PUT /api/products/update/:id\<close> writes them
  without validation.
\<close>

definition products_ok :: "product_doc list \<Rightarrow> bool" where
  "products_ok ps \<longleftrightarrow> distinct (map p_oid ps) \<and> distinct (map product_id ps)"

section \<open>Fixtures\<close>

text \<open>The store of the specification's example: one product, with quantity 10.\<close>

definition pen :: product_doc where
  "pen = \<lparr>p_oid = 1, product_id = ''P1'', name = ''Pen'', ptype = None, price = 5,
          purchasePrice = 3, quantity = Num 10, rack = Some ''A2''\<rparr>"

definition ink :: product_doc where
  "ink = \<lparr>p_oid = 2, product_id = ''P2'', name = ''Ink'', ptype = Some ''refill'', price = 7,
          purchasePrice = 4, quantity = Num 3, rack = None\<rparr>"

definition alice :: user_doc where
  "alice = \<lparr>u_oid = 1, username = ''alice'', email = ''alice@example.org'',
            password = ''Secret'', phone = ''555-0100''\<rparr>"

definition shop :: db where
  "shop = \<lparr>User = [alice], Product = [pen, ink], Purchase = []\<rparr>"

text \<open>The same shop with \<open>2 ^ 53\<close> pens, and with \<open>2 ^ 54\<close> pens.\<close>

definition depot :: db where
  "depot = shop\<lparr>Product := [pen\<lparr>quantity := Num 9007199254740992\<rparr>, ink]\<rparr>"

definition warehouse :: db where
  "warehouse = shop\<lparr>Product := [pen\<lparr>quantity := Num 18014398509481984\<rparr>, ink]\<rparr>"

text \<open>
  The shop after \<^verbatim>\<open>PUT /api/products/update/000000000000000000000001\<close> with the
  body \<^verbatim>\<open>{ "name": "" }\<close>.
\<close>

definition blank_shop :: db where
  "blank_shop =
     snd (updateProduct ''000000000000000000000001'' None (Some []) None None None None shop)"

text \<open>A checkout body without a date.\<close>

definition order_body :: purchase_body where
  "order_body =
     \<lparr>b_customer = Some \<lparr>c_name = Some ''Ann'', c_place = None, c_phone = Some ''555-0199'',
                          c_address = None\<rparr>,
      b_products = Some [JObj [(''product_id'', JStr ''P1''), (''qty'', JNum 2)]],
      b_total = Some 100, b_date = None\<rparr>"

text \<open>A collection in which the \<^verbatim>\<open>product_id\<close> of one product is the \<^verbatim>\<open>_id\<close> of another.\<close>

definition hex_shop :: db where
  "hex_shop =
     \<lparr>User = [],
      Product = [pen\<lparr>product_id := ''000000000000000000000002''\<rparr>, ink],
      Purchase = []\<rparr>"

section \<open>Lemmas about the persistence layer\<close>

lemma le_foldr_max: "x \<in> set ids \<Longrightarrow> x \<le> foldr max ids (0::nat)"
  by (induction ids) (auto simp: max_def)

lemma new_oid_fresh: "new_oid ids \<notin> set ids"
proof
  assume "new_oid ids \<in> set ids"
  then have "new_oid ids \<le> foldr max ids 0" by (rule le_foldr_max)
  then show False by (simp add: new_oid_def)
qed

lemma find_unique_key:
  "distinct (map k xs) \<Longrightarrow> p \<in> set xs \<Longrightarrow> find (\<lambda>r. k r = k p) xs = Some p"
proof (induction xs)
  case Nil
  then show ?case by simp
next
  case (Cons x xs)
  show ?case
  proof (cases "x = p")
    case True
    then show ?thesis by simp
  next
    case False
    with Cons.prems have mem: "p \<in> set xs" by simp
    from Cons.prems have "k x \<notin> k ` set xs" by simp
    with mem have "k x \<noteq> k p" by blast
    with Cons.IH Cons.prems mem show ?thesis by simp
  qed
qed

lemma find_absent_key: "a \<notin> set (map k xs) \<Longrightarrow> find (\<lambda>r. k r = a) xs = None"
  by (induction xs) auto

lemma map_replace_absent: "p \<notin> set xs \<Longrightarrow> map (\<lambda>r. if r = p then f r else r) xs = xs"
  by (induction xs) auto

lemma update_first_unique_key:
  "distinct (map k xs) \<Longrightarrow> p \<in> set xs \<Longrightarrow>
   update_first (\<lambda>r. k r = k p) f xs = map (\<lambda>r. if r = p then f r else r) xs"
proof (induction xs)
  case Nil
  then show ?case by simp
next
  case (Cons x xs)
  show ?case
  proof (cases "x = p")
    case True
    with Cons.prems have "p \<notin> set xs" by auto
    with True show ?thesis by (simp add: map_replace_absent)
  next
    case False
    with Cons.prems have mem: "p \<in> set xs" by simp
    from Cons.prems have "k x \<notin> k ` set xs" by simp
    with mem have "k x \<noteq> k p" by blast
    with Cons.IH Cons.prems mem False show ?thesis by simp
  qed
qed

text \<open>A record that is replaced by one with the same key is found under that key.\<close>

lemma find_replaced:
  "distinct (map k xs) \<Longrightarrow> p \<in> set xs \<Longrightarrow> k (f p) = k p \<Longrightarrow>
   find (\<lambda>r. k r = k p) (map (\<lambda>r. if r = p then f r else r) xs) = Some (f p)"
proof (induction xs)
  case Nil
  then show ?case by simp
next
  case (Cons x xs)
  show ?case
  proof (cases "x = p")
    case True
    with Cons.prems show ?thesis by simp
  next
    case False
    with Cons.prems have mem: "p \<in> set xs" by simp
    from Cons.prems have "k x \<notin> k ` set xs" by simp
    with mem have "k x \<noteq> k p" by blast
    with Cons.IH Cons.prems mem False show ?thesis by simp
  qed
qed

section \<open>Lemmas about Numbers\<close>

lemma floor_rat_numeral:
  "\<lfloor>numeral a / numeral b :: rat\<rfloor> = numeral a div numeral b"
  by (metis floor_divide_of_int_eq of_int_numeral)

lemma ceiling_rat_numeral:
  "\<lceil>numeral a / numeral b :: rat\<rceil> = - (- numeral a div numeral b)"
  by (metis ceiling_def floor_divide_of_int_eq minus_divide_left of_int_minus of_int_numeral)

lemma floor_rat_one_numeral:
  "\<lfloor>1 / numeral b :: rat\<rfloor> = 1 div numeral b"
  by (metis floor_divide_of_int_eq of_int_1 of_int_numeral)

text \<open>The rules that evaluate the rounding of a numeral, in two stages.\<close>

lemmas eval_exponent = ulp_exponent_def floor_log2_def bit_length.simps
  floor_rat_numeral ceiling_rat_numeral floor_rat_one_numeral

lemmas eval_round = round_at_def round_half_even_def pow2_def Let_def
  floor_rat_numeral ceiling_rat_numeral floor_rat_one_numeral

lemma bit_length_le: "n < 2 ^ k \<Longrightarrow> bit_length n \<le> k"
proof (induction k arbitrary: n)
  case 0
  then show ?case by (simp add: bit_length.simps)
next
  case (Suc k)
  show ?case
  proof (cases "n = 0")
    case True
    then show ?thesis by (simp add: bit_length.simps)
  next
    case False
    from Suc.prems have "n div 2 < 2 ^ k" by simp
    then have "bit_length (n div 2) \<le> k" by (rule Suc.IH)
    with False show ?thesis by (simp add: bit_length.simps [of n])
  qed
qed

lemma bit_length_pos: "0 < n \<Longrightarrow> 0 < bit_length n"
  by (simp add: bit_length.simps [of n])

lemma round_half_even_of_int: "round_half_even (of_int m) = m"
  by (simp add: round_half_even_def)

lemma pow2_neg: "pow2 (- int k) = 1 / 2 ^ k"
proof (cases "k = 0")
  case True
  then show ?thesis by (simp add: pow2_def)
next
  case False
  then have "\<not> 0 \<le> - int k" by simp
  moreover have "nat (- (- int k)) = k" by simp
  ultimately show ?thesis by (simp only: pow2_def if_False)
qed

lemma round_at_neg_of_int: "round_at (- int k) (of_int n) = of_int n"
proof -
  have "of_int n / pow2 (- int k) = (of_int (n * 2 ^ k) :: rat)"
    by (simp add: pow2_neg)
  then have "round_half_even (of_int n / pow2 (- int k)) = n * 2 ^ k"
    by (simp only: round_half_even_of_int)
  then show ?thesis
    by (simp add: round_at_def pow2_neg)
qed

text \<open>A positive integer of at most 53 bits, or \<open>2 ^ 53\<close> itself, is a double.\<close>

lemma to_double_pos_int:
  assumes pos: "0 < n" and le: "n \<le> 2 ^ 53"
  shows "to_double (of_int n) = Num (of_int n)"
proof -
  let ?a = "of_int n :: rat"
  let ?L = "bit_length (nat n)"
  from pos have a1: "1 \<le> ?a" by simp
  from pos have Lpos: "0 < ?L" by (simp add: bit_length_pos)
  from le pos have "nat n < 2 ^ 54"
    by (simp add: nat_less_iff)
  then have L54: "?L \<le> 54" by (rule bit_length_le)
  from a1 have fl: "floor_log2 ?a = int ?L - 1"
    by (simp add: floor_log2_def)
  from Lpos have ue: "ulp_exponent ?a = int ?L - 53"
    by (simp add: ulp_exponent_def fl)
  have v: "round_at (ulp_exponent ?a) ?a = ?a"
  proof (cases "?L \<le> 53")
    case True
    then have "int ?L - 53 = - int (53 - ?L)" by simp
    with ue show ?thesis by (simp only: round_at_neg_of_int)
  next
    case False
    with L54 have L: "?L = 54" by simp
    have "\<not> nat n < 2 ^ 53"
    proof
      assume "nat n < 2 ^ 53"
      then have "?L \<le> 53" by (rule bit_length_le)
      with L show False by simp
    qed
    with le pos have n: "n = 2 ^ 53" by (simp add: nat_less_iff)
    have "round_at 1 (2 ^ 53) = 2 ^ 53"
      by (simp add: eval_round)
    with ue L n show ?thesis by simp
  qed
  from le have "?a \<le> 2 ^ 53"
    by (metis of_int_le_iff of_int_numeral of_int_power)
  also have "(2 ^ 53 :: rat) < 2 ^ 1024" by simp
  finally have small: "\<not> pow2 1024 \<le> ?a" by (simp add: pow2_def)
  from pos have "?a \<noteq> 0" "0 < ?a" by simp_all
  then show ?thesis
    using v small by (simp add: to_double_def)
qed

lemma to_double_neg:
  "to_double r = Num r \<Longrightarrow> to_double (- r) = Num (- r)"
  by (auto simp: to_double_def Let_def split: if_splits)

text \<open>Every integer of magnitude at most \<open>2 ^ 53\<close> is a double.\<close>

lemma representable_int:
  assumes "\<bar>n\<bar> \<le> 2 ^ 53"
  shows "representable (of_int n)"
  unfolding representable_def
proof (cases "0 < n")
  case True
  with assms show "to_double (of_int n) = Num (of_int n)" by (simp add: to_double_pos_int)
next
  case False
  show "to_double (of_int n) = Num (of_int n)"
  proof (cases "n = 0")
    case True
    then show ?thesis by (simp add: to_double_def)
  next
    case nz: False
    with False assms have "0 < - n" "- n \<le> 2 ^ 53" by simp_all
    then have "to_double (of_int (- n)) = Num (of_int (- n))"
      by (rule to_double_pos_int)
    then have "to_double (- of_int (- n)) = Num (- of_int (- n))"
      by (rule to_double_neg)
    then show ?thesis by simp
  qed
qed

text \<open>\<open>2 ^ 53 + 1\<close> is not a double: it is rounded to \<open>2 ^ 53\<close>.\<close>

lemma to_double_above_2_53: "to_double 9007199254740993 = Num 9007199254740992"
proof -
  have e: "ulp_exponent 9007199254740993 = 1"
    by (simp add: eval_exponent)
  have v: "round_at 1 9007199254740993 = 9007199254740992"
    by (simp add: eval_round)
  have small: "\<not> pow2 1024 \<le> 9007199254740992"
    by (simp add: pow2_def)
  show ?thesis
    by (simp add: to_double_def e v small)
qed

text \<open>\<open>2 ^ 54 - 1\<close> is not a double: it is rounded to \<open>2 ^ 54\<close>.\<close>

lemma to_double_below_2_54: "to_double 18014398509481983 = Num 18014398509481984"
proof -
  have e: "ulp_exponent 18014398509481983 = 1"
    by (simp add: eval_exponent)
  have v: "round_at 1 18014398509481983 = 18014398509481984"
    by (simp add: eval_round)
  have small: "\<not> pow2 1024 \<le> 18014398509481984"
    by (simp add: pow2_def)
  show ?thesis
    by (simp add: to_double_def e v small)
qed

text \<open>The quantity-reduce handler on a product that is in the collection.\<close>

lemma reduceQuantity_found:
  assumes ok: "products_ok (Product d)"
    and mem: "p \<in> set (Product d)"
    and key: "product_id p = idp"
  shows "reduceQuantity idp q d =
           (if js_lt (quantity p) q then ((400, error ''Insufficient quantity''), d)
            else (case js_sub (quantity p) q of
                    None \<Rightarrow> ((500, error ''Failed to update quantity''), d)
                  | Some n \<Rightarrow>
                      if validate_product p
                      then ((200, message ''Quantity updated successfully''),
                            d\<lparr>Product := map (\<lambda>r. if r = p then r\<lparr>quantity := n\<rparr> else r)
                                             (Product d)\<rparr>)
                      else ((500, error ''Failed to update quantity''), d)))"
proof -
  from ok have d1: "distinct (map p_oid (Product d))"
    and d2: "distinct (map product_id (Product d))"
    by (simp_all add: products_ok_def)
  from d2 mem key have f: "find (\<lambda>r. product_id r = idp) (Product d) = Some p"
    using find_unique_key [of product_id "Product d" p] by simp
  have upd: "update_first (\<lambda>r. p_oid r = p_oid p) (\<lambda>r. r\<lparr>quantity := n\<rparr>) (Product d)
             = map (\<lambda>r. if r = p then r\<lparr>quantity := n\<rparr> else r) (Product d)" for n
    using d1 mem by (rule update_first_unique_key)
  show ?thesis
    using f by (simp add: reduceQuantity_def save_quantity_def upd split: option.splits)
qed

lemma shop_products_ok: "products_ok (Product shop)"
  by (simp add: shop_def pen_def ink_def products_ok_def)

lemma cast_one: "castObjectId ''000000000000000000000001'' = Some 1"
  by (simp add: castObjectId_def hex_digit_def)

lemma cast_two: "castObjectId ''000000000000000000000002'' = Some 2"
  by (simp add: castObjectId_def hex_digit_def)

lemma cast_nine: "castObjectId ''000000000000000000000009'' = Some 9"
  by (simp add: castObjectId_def hex_digit_def)

lemma js_le_not_lt: "js_le x y \<Longrightarrow> \<not> js_lt y x"
  by (cases x; cases y) simp_all

text \<open>The update without validation: the pen has an empty name and is still in stock.\<close>

lemma blank_shop_products:
  "Product blank_shop = [pen\<lparr>name := [], purchasePrice := 0\<rparr>, ink]"
  by (simp add: blank_shop_def updateProduct_def findByIdAndUpdate_def cast_one shop_def
      apply_update_def pen_def ink_def)

lemma blank_shop_answer:
  "fst (updateProduct ''000000000000000000000001'' None (Some []) None None None None shop) =
     (200, JObj [(''message'', JStr ''Product updated successfully''),
                 (''product'', JObj (product_fields (pen\<lparr>name := [], purchasePrice := 0\<rparr>)))])"
  by (simp add: updateProduct_def findByIdAndUpdate_def cast_one shop_def
      apply_update_def pen_def ink_def)

section \<open>Reducing a quantity\<close>

text \<open>
  Claim C1, as the code has it. \<^verbatim>\<open>PUT /api/products/:id\<close> on a collection with
  unique \<^verbatim>\<open>_id\<close> and \<^verbatim>\<open>product_id\<close>: when no product has the \<^verbatim>\<open>product_id\<close> of the
  path the answer is 404 and the database is unchanged; when the product with
  that \<^verbatim>\<open>product_id\<close> has a quantity strictly less than \<^verbatim>\<open>quantityToReduce\<close> the
  answer is 400, "Insufficient quantity", and the database is unchanged.
  Otherwise \<^verbatim>\<open>save()\<close> decides: when the product fails the validation of the
  schema (an empty \<^verbatim>\<open>product_id\<close> or \<^verbatim>\<open>name\<close>) or the difference is NaN, the
  answer is 500 and the database is unchanged; else the answer is 200 and the
  quantity of that product becomes the difference as JavaScript computes it,
  every other field, every other product and the other collections being as
  before. For two finite Numbers that difference is the double nearest to
  \<^verbatim>\<open>quantity - quantityToReduce\<close>; for integers whose difference is at most
  \<open>2 ^ 53\<close> it is exactly \<^verbatim>\<open>quantity - quantityToReduce\<close>.
\<close>

theorem reduceQuantity_spec:
  assumes ok: "products_ok (Product d)"
  shows "(idp \<notin> set (map product_id (Product d)) \<longrightarrow>
            reduceQuantity idp q d = ((404, JObj [(''error'', JStr ''Product not found'')]), d))
       \<and> (\<forall>p \<in> set (Product d). product_id p = idp \<longrightarrow>
            (js_lt (quantity p) q \<longrightarrow>
               reduceQuantity idp q d =
                 ((400, JObj [(''error'', JStr ''Insufficient quantity'')]), d))
          \<and> (\<not> js_lt (quantity p) q
               \<and> (product_id p = [] \<or> name p = [] \<or> js_sub (quantity p) q = None) \<longrightarrow>
               reduceQuantity idp q d =
                 ((500, JObj [(''error'', JStr ''Failed to update quantity'')]), d))
          \<and> (\<forall>n. \<not> js_lt (quantity p) q \<and> product_id p \<noteq> [] \<and> name p \<noteq> []
                  \<and> js_sub (quantity p) q = Some n \<longrightarrow>
               reduceQuantity idp q d =
                 ((200, JObj [(''message'', JStr ''Quantity updated successfully'')]),
                  d\<lparr>Product := map (\<lambda>r. if r = p then r\<lparr>quantity := n\<rparr> else r)
                                    (Product d)\<rparr>))
          \<and> (\<forall>a b. quantity p = Num a \<and> q = Num b \<and> \<not> a < b
                  \<and> product_id p \<noteq> [] \<and> name p \<noteq> [] \<longrightarrow>
               reduceQuantity idp q d =
                 ((200, JObj [(''message'', JStr ''Quantity updated successfully'')]),
                  d\<lparr>Product := map (\<lambda>r. if r = p then r\<lparr>quantity := to_double (a - b)\<rparr> else r)
                                    (Product d)\<rparr>))
          \<and> (\<forall>m k. quantity p = Num (of_int m) \<and> q = Num (of_int k) \<and> k \<le> m
                  \<and> m - k \<le> 2 ^ 53 \<and> product_id p \<noteq> [] \<and> name p \<noteq> [] \<longrightarrow>
               reduceQuantity idp q d =
                 ((200, JObj [(''message'', JStr ''Quantity updated successfully'')]),
                  d\<lparr>Product := map (\<lambda>r. if r = p then r\<lparr>quantity := Num (of_int (m - k))\<rparr>
                                         else r)
                                    (Product d)\<rparr>)))"
proof (intro conjI impI ballI allI)
  assume "idp \<notin> set (map product_id (Product d))"
  then have "find (\<lambda>r. product_id r = idp) (Product d) = None"
    by (rule find_absent_key)
  then show "reduceQuantity idp q d = ((404, JObj [(''error'', JStr ''Product not found'')]), d)"
    by (simp add: reduceQuantity_def error_def)
next
  fix p
  assume "p \<in> set (Product d)" and "product_id p = idp" and "js_lt (quantity p) q"
  then show "reduceQuantity idp q d =
      ((400, JObj [(''error'', JStr ''Insufficient quantity'')]), d)"
    by (simp add: reduceQuantity_found [OF ok] error_def)
next
  fix p
  assume "p \<in> set (Product d)" and "product_id p = idp"
    and "\<not> js_lt (quantity p) q
          \<and> (product_id p = [] \<or> name p = [] \<or> js_sub (quantity p) q = None)"
  then show "reduceQuantity idp q d =
      ((500, JObj [(''error'', JStr ''Failed to update quantity'')]), d)"
    by (auto simp: reduceQuantity_found [OF ok] error_def validate_product_def
        required_string_def split: option.splits)
next
  fix p n
  assume "p \<in> set (Product d)" and "product_id p = idp"
    and "\<not> js_lt (quantity p) q \<and> product_id p \<noteq> [] \<and> name p \<noteq> []
          \<and> js_sub (quantity p) q = Some n"
  then show "reduceQuantity idp q d =
      ((200, JObj [(''message'', JStr ''Quantity updated successfully'')]),
       d\<lparr>Product := map (\<lambda>r. if r = p then r\<lparr>quantity := n\<rparr> else r) (Product d)\<rparr>)"
    by (simp add: reduceQuantity_found [OF ok] message_def validate_product_def
        required_string_def)
next
  fix p a b
  assume "p \<in> set (Product d)" and "product_id p = idp"
    and "quantity p = Num a \<and> q = Num b \<and> \<not> a < b \<and> product_id p \<noteq> [] \<and> name p \<noteq> []"
  then show "reduceQuantity idp q d =
      ((200, JObj [(''message'', JStr ''Quantity updated successfully'')]),
       d\<lparr>Product := map (\<lambda>r. if r = p then r\<lparr>quantity := to_double (a - b)\<rparr> else r)
                         (Product d)\<rparr>)"
    by (simp add: reduceQuantity_found [OF ok] message_def validate_product_def
        required_string_def)
next
  fix p m k
  assume mem: "p \<in> set (Product d)" and key: "product_id p = idp"
    and a: "quantity p = Num (of_int m) \<and> q = Num (of_int k) \<and> k \<le> m
            \<and> m - k \<le> 2 ^ 53 \<and> product_id p \<noteq> [] \<and> name p \<noteq> []"
  then have "\<bar>m - k\<bar> \<le> 2 ^ 53" by simp
  then have "representable (of_int (m - k))" by (rule representable_int)
  then have exact: "to_double (of_int m - of_int k) = Num (of_int (m - k))"
    by (simp add: representable_def)
  from a have "\<not> (of_int m :: rat) < of_int k" by simp
  with mem key a exact show "reduceQuantity idp q d =
      ((200, JObj [(''message'', JStr ''Quantity updated successfully'')]),
       d\<lparr>Product := map (\<lambda>r. if r = p then r\<lparr>quantity := Num (of_int (m - k))\<rparr> else r)
                         (Product d)\<rparr>)"
    by (simp add: reduceQuantity_found [OF ok] message_def validate_product_def
        required_string_def)
qed

text \<open>
  The claim as the specification words it fails twice. After a full-replace
  update has emptied the name of the pen (answered 200, nothing is validated
  there), reducing its quantity of 10 by 1 is answered 500 and not 200. And
  with \<open>2 ^ 54\<close> pens, reducing by 1 is answered 200 and leaves the quantity at
  \<open>2 ^ 54\<close>: the quantity is not decremented by exactly 1.
\<close>

theorem reduceQuantity_spec_counterexample:
  "fst (fst (updateProduct ''000000000000000000000001'' None (Some []) None None None None
               shop)) = 200
   \<and> Product blank_shop = [pen\<lparr>name := [], purchasePrice := 0\<rparr>, ink]
   \<and> product_id (pen\<lparr>name := [], purchasePrice := 0\<rparr>) = ''P1''
   \<and> quantity (pen\<lparr>name := [], purchasePrice := 0\<rparr>) = Num 10
   \<and> \<not> js_lt (Num 10) (Num 1)
   \<and> reduceQuantity ''P1'' (Num 1) blank_shop =
       ((500, JObj [(''error'', JStr ''Failed to update quantity'')]), blank_shop)
   \<and> Product warehouse = [pen\<lparr>quantity := Num 18014398509481984\<rparr>, ink]
   \<and> \<not> js_lt (Num 18014398509481984) (Num 1)
   \<and> reduceQuantity ''P1'' (Num 1) warehouse =
       ((200, JObj [(''message'', JStr ''Quantity updated successfully'')]), warehouse)"
proof -
  have a: "fst (fst (updateProduct ''000000000000000000000001'' None (Some []) None None None
                       None shop)) = 200"
    by (simp add: blank_shop_answer)
  have b: "product_id (pen\<lparr>name := [], purchasePrice := 0\<rparr>) = ''P1''"
    and c: "quantity (pen\<lparr>name := [], purchasePrice := 0\<rparr>) = Num 10"
    by (simp_all add: pen_def)
  have "find (\<lambda>p. product_id p = ''P1'') (Product blank_shop)
          = Some (pen\<lparr>name := [], purchasePrice := 0\<rparr>)"
    by (simp add: blank_shop_products pen_def)
  then have e: "reduceQuantity ''P1'' (Num 1) blank_shop =
       ((500, JObj [(''error'', JStr ''Failed to update quantity'')]), blank_shop)"
    by (simp add: reduceQuantity_def save_quantity_def validate_product_def required_string_def
        pen_def error_def)
  have w: "Product warehouse = [pen\<lparr>quantity := Num 18014398509481984\<rparr>, ink]"
    by (simp add: warehouse_def)
  have "find (\<lambda>p. product_id p = ''P1'') (Product warehouse)
          = Some (pen\<lparr>quantity := Num 18014398509481984\<rparr>)"
    by (simp add: w pen_def)
  moreover have "warehouse\<lparr>Product := [pen\<lparr>quantity := Num 18014398509481984\<rparr>, ink]\<rparr> = warehouse"
    by (simp add: warehouse_def)
  ultimately have f: "reduceQuantity ''P1'' (Num 1) warehouse =
       ((200, JObj [(''message'', JStr ''Quantity updated successfully'')]), warehouse)"
    by (simp add: reduceQuantity_def save_quantity_def validate_product_def required_string_def
        pen_def w to_double_below_2_54 message_def)
  show ?thesis
    using a blank_shop_products b c e w f by simp
qed

lemma blank_shop_products_ok: "products_ok (Product blank_shop)"
  by (simp add: blank_shop_products products_ok_def pen_def ink_def)

text \<open>
  The example of the specification: with quantity 10, reducing by 10 gives 200
  and quantity 0, and reducing by 11 gives 400 with the quantity still 10.
\<close>

theorem reduceQuantity_spec_witness:
  "products_ok (Product shop)
   \<and> reduceQuantity ''P1'' (Num 10) shop =
       ((200, JObj [(''message'', JStr ''Quantity updated successfully'')]),
        shop\<lparr>Product := [pen\<lparr>quantity := Num 0\<rparr>, ink]\<rparr>)
   \<and> reduceQuantity ''P1'' (Num 11) shop =
       ((400, JObj [(''error'', JStr ''Insufficient quantity'')]), shop)
   \<and> reduceQuantity ''P9'' (Num 1) shop =
       ((404, JObj [(''error'', JStr ''Product not found'')]), shop)
   \<and> reduceQuantity ''P1'' (Num 1) blank_shop =
       ((500, JObj [(''error'', JStr ''Failed to update quantity'')]), blank_shop)"
proof -
  have mem: "pen \<in> set (Product shop)" and key: "product_id pen = ''P1''"
    and nm: "name pen = ''Pen''"
    and q: "quantity pen = Num 10" and ne: "ink \<noteq> pen"
    and absent: "''P9'' \<notin> set (map product_id (Product shop))"
    and ps: "Product shop = [pen, ink]"
    by (simp_all add: shop_def pen_def ink_def)
  have ten: "Num 10 = Num (of_int 10)" by simp
  have int: "quantity pen = Num (of_int 10) \<and> Num 10 = Num (of_int 10) \<and> (10::int) \<le> 10
      \<and> (10::int) - 10 \<le> 2 ^ 53 \<and> product_id pen \<noteq> [] \<and> name pen \<noteq> []"
    by (simp add: q key nm)
  from reduceQuantity_spec [OF shop_products_ok, of "''P1''" "Num 10"] mem key int
  have "reduceQuantity ''P1'' (Num 10) shop =
       ((200, JObj [(''message'', JStr ''Quantity updated successfully'')]),
        shop\<lparr>Product := map (\<lambda>r. if r = pen then r\<lparr>quantity := Num (of_int (10 - 10))\<rparr>
                                 else r) (Product shop)\<rparr>)"
    by blast
  then have a: "reduceQuantity ''P1'' (Num 10) shop =
       ((200, JObj [(''message'', JStr ''Quantity updated successfully'')]),
        shop\<lparr>Product := [pen\<lparr>quantity := Num 0\<rparr>, ink]\<rparr>)"
    using ne by (simp add: ps)
  have lt: "js_lt (quantity pen) (Num 11)" by (simp add: q)
  from reduceQuantity_spec [OF shop_products_ok, of "''P1''" "Num 11"] mem key lt
  have b: "reduceQuantity ''P1'' (Num 11) shop =
      ((400, JObj [(''error'', JStr ''Insufficient quantity'')]), shop)"
    by blast
  from reduceQuantity_spec [OF shop_products_ok, of "''P9''" "Num 1"] absent
  have c: "reduceQuantity ''P9'' (Num 1) shop =
      ((404, JObj [(''error'', JStr ''Product not found'')]), shop)"
    by blast
  let ?blank = "pen\<lparr>name := [], purchasePrice := 0\<rparr>"
  have bmem: "?blank \<in> set (Product blank_shop)" and bkey: "product_id ?blank = ''P1''"
    and bad: "\<not> js_lt (quantity ?blank) (Num 1)
          \<and> (product_id ?blank = [] \<or> name ?blank = [] \<or> js_sub (quantity ?blank) (Num 1) = None)"
    by (simp_all add: blank_shop_products pen_def)
  from reduceQuantity_spec [OF blank_shop_products_ok, of "''P1''" "Num 1"] bmem bkey bad
  have e: "reduceQuantity ''P1'' (Num 1) blank_shop =
      ((500, JObj [(''error'', JStr ''Failed to update quantity'')]), blank_shop)"
    by blast
  show ?thesis
    by (intro conjI) (rule shop_products_ok, rule a, rule b, rule c, rule e)
qed

text \<open>
  Claim C9, as the code has it. The handler has no lower bound on
  \<^verbatim>\<open>quantityToReduce\<close>: for a stored product that passes the validation of the
  schema and every \<^verbatim>\<open>quantityToReduce\<close> that is at most its quantity, negative
  values included, the guard passes; unless the difference is NaN the answer
  is 200 and the stored quantity becomes the difference as JavaScript computes
  it, for two finite Numbers the double nearest to the old quantity minus
  \<^verbatim>\<open>quantityToReduce\<close>. When that exact difference is itself a double, it is
  the new quantity, and then a negative \<^verbatim>\<open>quantityToReduce\<close> makes the stored
  quantity strictly larger.
\<close>

theorem reduceQuantity_no_lower_bound:
  assumes ok: "products_ok (Product d)"
    and mem: "p \<in> set (Product d)"
    and key: "product_id p = idp"
    and valid: "product_id p \<noteq> [] \<and> name p \<noteq> []"
    and le: "js_le quantityToReduce (quantity p)"
  shows "\<not> js_lt (quantity p) quantityToReduce
       \<and> (js_sub (quantity p) quantityToReduce = None \<longrightarrow>
            reduceQuantity idp quantityToReduce d =
              ((500, JObj [(''error'', JStr ''Failed to update quantity'')]), d))
       \<and> (\<forall>n. js_sub (quantity p) quantityToReduce = Some n \<longrightarrow>
            fst (reduceQuantity idp quantityToReduce d) =
              (200, JObj [(''message'', JStr ''Quantity updated successfully'')])
            \<and> find (\<lambda>r. product_id r = idp)
                 (Product (snd (reduceQuantity idp quantityToReduce d))) = Some (p\<lparr>quantity := n\<rparr>))
       \<and> (\<forall>a b. quantity p = Num a \<and> quantityToReduce = Num b \<longrightarrow>
            js_sub (quantity p) quantityToReduce = Some (to_double (a - b)))
       \<and> (\<forall>a b. quantity p = Num a \<and> quantityToReduce = Num b \<and> representable (a - b) \<longrightarrow>
            find (\<lambda>r. product_id r = idp)
              (Product (snd (reduceQuantity idp quantityToReduce d))) =
              Some (p\<lparr>quantity := Num (a - b)\<rparr>)
            \<and> (b < 0 \<longrightarrow> js_lt (quantity p) (Num (a - b))))"
proof -
  from le have guard: "\<not> js_lt (quantity p) quantityToReduce" by (rule js_le_not_lt)
  from valid have v: "validate_product p"
    by (simp add: validate_product_def required_string_def)
  from ok have d2: "distinct (map product_id (Product d))"
    by (simp add: products_ok_def)
  have nan: "reduceQuantity idp quantityToReduce d =
      ((500, JObj [(''error'', JStr ''Failed to update quantity'')]), d)"
    if "js_sub (quantity p) quantityToReduce = None"
    using that guard by (simp add: reduceQuantity_found [OF ok mem key] error_def)
  have run: "reduceQuantity idp quantityToReduce d =
      ((200, JObj [(''message'', JStr ''Quantity updated successfully'')]),
       d\<lparr>Product := map (\<lambda>r. if r = p then r\<lparr>quantity := n\<rparr> else r) (Product d)\<rparr>)"
    if "js_sub (quantity p) quantityToReduce = Some n" for n
    using that guard v by (simp add: reduceQuantity_found [OF ok mem key] message_def)
  have stored: "find (\<lambda>r. product_id r = idp)
        (Product (snd (reduceQuantity idp quantityToReduce d))) = Some (p\<lparr>quantity := n\<rparr>)"
    if sub: "js_sub (quantity p) quantityToReduce = Some n" for n
  proof -
    have "find (\<lambda>r. product_id r = product_id p)
            (map (\<lambda>r. if r = p then r\<lparr>quantity := n\<rparr> else r) (Product d))
          = Some (p\<lparr>quantity := n\<rparr>)"
      using d2 mem by (rule find_replaced) simp
    with key run [OF sub] show ?thesis by simp
  qed
  have finite: "js_sub (quantity p) quantityToReduce = Some (to_double (a - b))"
    if "quantity p = Num a \<and> quantityToReduce = Num b" for a b
    using that by simp
  have exact: "find (\<lambda>r. product_id r = idp)
        (Product (snd (reduceQuantity idp quantityToReduce d))) = Some (p\<lparr>quantity := Num (a - b)\<rparr>)
      \<and> (b < 0 \<longrightarrow> js_lt (quantity p) (Num (a - b)))"
    if h: "quantity p = Num a \<and> quantityToReduce = Num b \<and> representable (a - b)" for a b
  proof -
    from h have "js_sub (quantity p) quantityToReduce = Some (Num (a - b))"
      by (simp add: representable_def)
    then have "find (\<lambda>r. product_id r = idp)
        (Product (snd (reduceQuantity idp quantityToReduce d))) = Some (p\<lparr>quantity := Num (a - b)\<rparr>)"
      by (rule stored)
    moreover from h have "b < 0 \<longrightarrow> js_lt (quantity p) (Num (a - b))" by simp
    ultimately show ?thesis by blast
  qed
  show ?thesis
  proof (intro conjI allI impI)
    show "\<not> js_lt (quantity p) quantityToReduce" by (rule guard)
  next
    assume "js_sub (quantity p) quantityToReduce = None"
    then show "reduceQuantity idp quantityToReduce d =
        ((500, JObj [(''error'', JStr ''Failed to update quantity'')]), d)"
      by (rule nan)
  next
    fix n
    assume s: "js_sub (quantity p) quantityToReduce = Some n"
    from run [OF s] show "fst (reduceQuantity idp quantityToReduce d) =
        (200, JObj [(''message'', JStr ''Quantity updated successfully'')])"
      by simp
  next
    fix n
    assume "js_sub (quantity p) quantityToReduce = Some n"
    then show "find (\<lambda>r. product_id r = idp)
        (Product (snd (reduceQuantity idp quantityToReduce d))) = Some (p\<lparr>quantity := n\<rparr>)"
      by (rule stored)
  next
    fix a b
    assume "quantity p = Num a \<and> quantityToReduce = Num b"
    then show "js_sub (quantity p) quantityToReduce = Some (to_double (a - b))"
      by (rule finite)
  next
    fix a b
    assume "quantity p = Num a \<and> quantityToReduce = Num b \<and> representable (a - b)"
    then show "find (\<lambda>r. product_id r = idp)
        (Product (snd (reduceQuantity idp quantityToReduce d))) = Some (p\<lparr>quantity := Num (a - b)\<rparr>)"
      using exact by blast
  next
    fix a b
    assume "quantity p = Num a \<and> quantityToReduce = Num b \<and> representable (a - b)"
      and "b < 0"
    then show "js_lt (quantity p) (Num (a - b))"
      using exact by blast
  qed
qed

text \<open>
  The claim as the specification words it fails with \<open>2 ^ 53\<close> pens: reducing
  by \<open>- 1\<close> is answered 200 and the quantity stays \<open>2 ^ 53\<close>, so it is neither the
  old quantity minus \<^verbatim>\<open>quantityToReduce\<close> nor strictly larger than before.
\<close>

theorem reduceQuantity_no_lower_bound_counterexample:
  "Product depot = [pen\<lparr>quantity := Num 9007199254740992\<rparr>, ink]
   \<and> product_id (pen\<lparr>quantity := Num 9007199254740992\<rparr>) = ''P1''
   \<and> name (pen\<lparr>quantity := Num 9007199254740992\<rparr>) = ''Pen''
   \<and> js_le (Num (- 1)) (Num 9007199254740992)
   \<and> reduceQuantity ''P1'' (Num (- 1)) depot =
       ((200, JObj [(''message'', JStr ''Quantity updated successfully'')]), depot)
   \<and> \<not> js_lt (Num 9007199254740992) (Num 9007199254740992)"
proof -
  have w: "Product depot = [pen\<lparr>quantity := Num 9007199254740992\<rparr>, ink]"
    by (simp add: depot_def)
  have "find (\<lambda>p. product_id p = ''P1'') (Product depot)
          = Some (pen\<lparr>quantity := Num 9007199254740992\<rparr>)"
    by (simp add: w pen_def)
  moreover have "depot\<lparr>Product := [pen\<lparr>quantity := Num 9007199254740992\<rparr>, ink]\<rparr> = depot"
    by (simp add: depot_def)
  ultimately have f: "reduceQuantity ''P1'' (Num (- 1)) depot =
       ((200, JObj [(''message'', JStr ''Quantity updated successfully'')]), depot)"
    by (simp add: reduceQuantity_def save_quantity_def validate_product_def required_string_def
        pen_def w to_double_above_2_53 message_def)
  show ?thesis
    using w f by (simp add: pen_def)
qed

theorem reduceQuantity_no_lower_bound_witness:
  "products_ok (Product shop) \<and> pen \<in> set (Product shop) \<and> product_id pen = ''P1''
   \<and> js_le (Num (- 5)) (quantity pen)
   \<and> \<not> js_lt (quantity pen) (Num (- 5))
   \<and> fst (reduceQuantity ''P1'' (Num (- 5)) shop) =
       (200, JObj [(''message'', JStr ''Quantity updated successfully'')])
   \<and> find (\<lambda>r. product_id r = ''P1'') (Product (snd (reduceQuantity ''P1'' (Num (- 5)) shop)))
       = Some (pen\<lparr>quantity := Num 15\<rparr>)
   \<and> js_lt (quantity pen) (Num 15)"
proof -
  have mem: "pen \<in> set (Product shop)" and key: "product_id pen = ''P1''"
    and valid: "product_id pen \<noteq> [] \<and> name pen \<noteq> []"
    and le: "js_le (Num (- 5)) (quantity pen)" and q: "quantity pen = Num 10"
    by (simp_all add: shop_def pen_def)
  note spec = reduceQuantity_no_lower_bound [OF shop_products_ok mem key valid le]
  have "representable (of_int 15)"
    by (rule representable_int) simp
  then have rep: "representable (10 - (- 5))" by simp
  from spec have guard: "\<not> js_lt (quantity pen) (Num (- 5))"
    by (rule conjunct1)
  from spec q rep have stored: "find (\<lambda>r. product_id r = ''P1'')
        (Product (snd (reduceQuantity ''P1'' (Num (- 5)) shop)))
       = Some (pen\<lparr>quantity := Num (10 - (- 5))\<rparr>)"
    and more: "(- 5 :: rat) < 0 \<longrightarrow> js_lt (quantity pen) (Num (10 - (- 5)))"
    by blast+
  from spec q have sub: "js_sub (quantity pen) (Num (- 5)) = Some (to_double (10 - (- 5)))"
    by blast
  with spec have ans: "fst (reduceQuantity ''P1'' (Num (- 5)) shop) =
       (200, JObj [(''message'', JStr ''Quantity updated successfully'')])"
    by blast
  from stored have stored': "find (\<lambda>r. product_id r = ''P1'')
        (Product (snd (reduceQuantity ''P1'' (Num (- 5)) shop)))
       = Some (pen\<lparr>quantity := Num 15\<rparr>)"
    by simp
  from more have more': "js_lt (quantity pen) (Num 15)" by simp
  show ?thesis
    by (intro conjI)
      (rule shop_products_ok, rule mem, rule key, rule le, rule guard, rule ans, rule stored',
        rule more')
qed

section \<open>Users\<close>

lemma find_None_no_match:
  "find P xs = None \<longleftrightarrow> \<not> (\<exists>x \<in> set xs. P x)"
  by (induction xs) auto

lemma find_Some_match: "(\<exists>x \<in> set xs. P x) \<Longrightarrow> \<exists>y. find P xs = Some y"
  by (induction xs) auto

lemma signup_conflict:
  assumes "\<exists>u \<in> set (User d). username u = un \<or> email u = em"
  shows "signup un em pw ph d = ((400, message ''User already exists''), d)"
proof -
  from assms have "\<exists>u \<in> set (User d). email u = em \<or> username u = un" by blast
  then obtain y where "find (\<lambda>u. email u = em \<or> username u = un) (User d) = Some y"
    using find_Some_match [of "User d" "\<lambda>u. email u = em \<or> username u = un"] by blast
  then show ?thesis by (simp add: signup_def)
qed

lemma signup_created:
  assumes free: "\<not> (\<exists>u \<in> set (User d). username u = un \<or> email u = em)"
    and req: "un \<noteq> []" "em \<noteq> []" "pw \<noteq> []" "ph \<noteq> []"
  shows "signup un em pw ph d =
           ((201, message ''Signup successful''),
            d\<lparr>User := User d @ [\<lparr>u_oid = new_oid (map u_oid (User d)), username = un,
                                  email = em, password = pw, phone = ph\<rparr>]\<rparr>)"
proof -
  from free have none: "find (\<lambda>u. email u = em \<or> username u = un) (User d) = None"
    by (auto simp: find_None_no_match)
  from free have "un \<notin> username ` set (User d)" and "em \<notin> email ` set (User d)"
    by auto
  moreover have "new_oid (map u_oid (User d)) \<notin> u_oid ` set (User d)"
    using new_oid_fresh [of "map u_oid (User d)"] by simp
  ultimately show ?thesis
    using none req
    by (simp add: signup_def save_new_user_def validate_user_def required_string_def)
qed

text \<open>A request that fails the validation of \<^verbatim>\<open>save()\<close> is answered 500 and adds nothing.\<close>

lemma signup_invalid:
  assumes free: "\<not> (\<exists>u \<in> set (User d). username u = un \<or> email u = em)"
    and bad: "un = [] \<or> em = [] \<or> pw = [] \<or> ph = []"
  shows "signup un em pw ph d = ((500, error ''Signup failed''), d)"
proof -
  from free have none: "find (\<lambda>u. email u = em \<or> username u = un) (User d) = None"
    by (auto simp: find_None_no_match)
  from bad have "\<not> validate_user \<lparr>u_oid = new_oid (map u_oid (User d)), username = un,
                                  email = em, password = pw, phone = ph\<rparr>"
    by (auto simp: validate_user_def required_string_def)
  with none show ?thesis
    by (simp add: signup_def save_new_user_def)
qed

text \<open>
  Claim C3, as the code has it. \<^verbatim>\<open>POST /api/signup\<close>: when a stored user has the
  submitted username or the submitted email, the answer is 400, "User already
  exists", and no record is added. Otherwise the schema's required check
  decides: when one of the four submitted strings is empty the answer is 500
  and no record is added; when none is empty, exactly one record with the
  submitted username, email, password and phone is appended and the answer is
  201, and any later signup with the same username or the same email is
  answered 400 and leaves the collection as it is, so no duplicate is ever
  stored.
\<close>

theorem signup_spec:
  "((\<exists>u \<in> set (User d). username u = un \<or> email u = em) \<longrightarrow>
      signup un em pw ph d = ((400, JObj [(''message'', JStr ''User already exists'')]), d))
   \<and> (\<not> (\<exists>u \<in> set (User d). username u = un \<or> email u = em)
        \<and> (un = [] \<or> em = [] \<or> pw = [] \<or> ph = []) \<longrightarrow>
      signup un em pw ph d = ((500, JObj [(''error'', JStr ''Signup failed'')]), d))
   \<and> (\<not> (\<exists>u \<in> set (User d). username u = un \<or> email u = em)
        \<and> un \<noteq> [] \<and> em \<noteq> [] \<and> pw \<noteq> [] \<and> ph \<noteq> [] \<longrightarrow>
      signup un em pw ph d =
        ((201, JObj [(''message'', JStr ''Signup successful'')]),
         d\<lparr>User := User d @ [\<lparr>u_oid = new_oid (map u_oid (User d)), username = un,
                               email = em, password = pw, phone = ph\<rparr>]\<rparr>)
      \<and> (\<forall>un2 em2 pw2 ph2. un2 = un \<or> em2 = em \<longrightarrow>
            signup un2 em2 pw2 ph2 (snd (signup un em pw ph d)) =
              ((400, JObj [(''message'', JStr ''User already exists'')]),
               snd (signup un em pw ph d))))"
proof (intro conjI impI allI)
  assume "\<exists>u \<in> set (User d). username u = un \<or> email u = em"
  then show "signup un em pw ph d =
      ((400, JObj [(''message'', JStr ''User already exists'')]), d)"
    by (simp add: signup_conflict message_def)
next
  assume "\<not> (\<exists>u \<in> set (User d). username u = un \<or> email u = em)
        \<and> (un = [] \<or> em = [] \<or> pw = [] \<or> ph = [])"
  then have "signup un em pw ph d = ((500, error ''Signup failed''), d)"
    using signup_invalid [of d un em pw ph] by blast
  then show "signup un em pw ph d = ((500, JObj [(''error'', JStr ''Signup failed'')]), d)"
    by (simp add: error_def)
next
  assume a: "\<not> (\<exists>u \<in> set (User d). username u = un \<or> email u = em)
        \<and> un \<noteq> [] \<and> em \<noteq> [] \<and> pw \<noteq> [] \<and> ph \<noteq> []"
  then show "signup un em pw ph d =
        ((201, JObj [(''message'', JStr ''Signup successful'')]),
         d\<lparr>User := User d @ [\<lparr>u_oid = new_oid (map u_oid (User d)), username = un,
                               email = em, password = pw, phone = ph\<rparr>]\<rparr>)"
    by (simp add: signup_created message_def)
next
  fix un2 em2 pw2 ph2 :: string
  assume a: "\<not> (\<exists>u \<in> set (User d). username u = un \<or> email u = em)
        \<and> un \<noteq> [] \<and> em \<noteq> [] \<and> pw \<noteq> [] \<and> ph \<noteq> []"
    and same: "un2 = un \<or> em2 = em"
  let ?d' = "snd (signup un em pw ph d)"
  from a have "User ?d' = User d @ [\<lparr>u_oid = new_oid (map u_oid (User d)), username = un,
                               email = em, password = pw, phone = ph\<rparr>]"
    by (simp add: signup_created)
  with same have "\<exists>u \<in> set (User ?d'). username u = un2 \<or> email u = em2"
    by auto
  then show "signup un2 em2 pw2 ph2 ?d' =
      ((400, JObj [(''message'', JStr ''User already exists'')]), ?d')"
    by (simp add: signup_conflict message_def)
qed

text \<open>
  The claim as the specification words it fails on a request with an empty
  phone: no stored user has the username or the email, and still nothing is
  persisted and the answer is 500, not 201.
\<close>

theorem signup_spec_counterexample:
  "User shop = [alice]
   \<and> username alice \<noteq> ''bob'' \<and> email alice \<noteq> ''bob@example.org''
   \<and> signup ''bob'' ''bob@example.org'' ''pw'' [] shop =
       ((500, JObj [(''error'', JStr ''Signup failed'')]), shop)"
proof -
  have us: "User shop = [alice]" by (simp add: shop_def)
  have other: "username alice \<noteq> ''bob'' \<and> email alice \<noteq> ''bob@example.org''"
    by (simp add: alice_def)
  then have "find (\<lambda>u. email u = ''bob@example.org'' \<or> username u = ''bob'') (User shop) = None"
    by (simp add: us)
  then have "signup ''bob'' ''bob@example.org'' ''pw'' [] shop =
       ((500, JObj [(''error'', JStr ''Signup failed'')]), shop)"
    by (simp add: signup_def save_new_user_def validate_user_def required_string_def error_def)
  with us other show ?thesis by blast
qed

theorem signup_spec_witness:
  "signup ''bob'' ''bob@example.org'' ''pw'' ''555-0101'' shop =
     ((201, JObj [(''message'', JStr ''Signup successful'')]),
      shop\<lparr>User := [alice, \<lparr>u_oid = 2, username = ''bob'', email = ''bob@example.org'',
                              password = ''pw'', phone = ''555-0101''\<rparr>]\<rparr>)
   \<and> signup ''bob'' ''other@example.org'' ''x'' ''1''
        (snd (signup ''bob'' ''bob@example.org'' ''pw'' ''555-0101'' shop)) =
       ((400, JObj [(''message'', JStr ''User already exists'')]),
        snd (signup ''bob'' ''bob@example.org'' ''pw'' ''555-0101'' shop))
   \<and> signup ''carol'' ''alice@example.org'' ''pw'' ''555-0102'' shop =
       ((400, JObj [(''message'', JStr ''User already exists'')]), shop)
   \<and> signup ''bob'' ''bob@example.org'' ''pw'' [] shop =
       ((500, JObj [(''error'', JStr ''Signup failed'')]), shop)"
proof -
  let ?first = "signup ''bob'' ''bob@example.org'' ''pw'' ''555-0101'' shop"
  have us: "User shop = [alice]" by (simp add: shop_def)
  have free: "\<not> (\<exists>u \<in> set (User shop). username u = ''bob'' \<or> email u = ''bob@example.org'')
              \<and> ''bob'' \<noteq> [] \<and> ''bob@example.org'' \<noteq> [] \<and> ''pw'' \<noteq> [] \<and> ''555-0101'' \<noteq> []"
    by (simp add: us alice_def)
  have empty: "\<not> (\<exists>u \<in> set (User shop). username u = ''bob'' \<or> email u = ''bob@example.org'')
              \<and> (''bob'' = [] \<or> ''bob@example.org'' = [] \<or> ''pw'' = [] \<or> ([] :: string) = [])"
    by (simp add: us alice_def)
  have taken: "\<exists>u \<in> set (User shop). username u = ''carol'' \<or> email u = ''alice@example.org''"
    by (simp add: us alice_def)
  have fresh: "new_oid (map u_oid [alice]) = 2"
    by (simp add: alice_def new_oid_def)
  from signup_spec [of shop "''bob''" "''bob@example.org''" "''pw''" "''555-0101''"] free
  have a0: "?first =
     ((201, JObj [(''message'', JStr ''Signup successful'')]),
      shop\<lparr>User := User shop @ [\<lparr>u_oid = new_oid (map u_oid (User shop)), username = ''bob'',
              email = ''bob@example.org'', password = ''pw'', phone = ''555-0101''\<rparr>]\<rparr>)"
    and b0: "\<forall>un2 em2 pw2 ph2. un2 = ''bob'' \<or> em2 = ''bob@example.org'' \<longrightarrow>
            signup un2 em2 pw2 ph2 (snd ?first) =
              ((400, JObj [(''message'', JStr ''User already exists'')]), snd ?first)"
    by blast+
  from a0 have a: "?first =
     ((201, JObj [(''message'', JStr ''Signup successful'')]),
      shop\<lparr>User := [alice, \<lparr>u_oid = 2, username = ''bob'', email = ''bob@example.org'',
                              password = ''pw'', phone = ''555-0101''\<rparr>]\<rparr>)"
    by (simp only: fresh us append.simps)
  from b0 have b: "signup ''bob'' ''other@example.org'' ''x'' ''1'' (snd ?first) =
       ((400, JObj [(''message'', JStr ''User already exists'')]), snd ?first)"
    by blast
  from signup_spec [of shop "''carol''" "''alice@example.org''" "''pw''" "''555-0102''"] taken
  have c: "signup ''carol'' ''alice@example.org'' ''pw'' ''555-0102'' shop =
       ((400, JObj [(''message'', JStr ''User already exists'')]), shop)"
    by blast
  from signup_spec [of shop "''bob''" "''bob@example.org''" "''pw''" "[]"] empty
  have e: "signup ''bob'' ''bob@example.org'' ''pw'' [] shop =
       ((500, JObj [(''error'', JStr ''Signup failed'')]), shop)"
    by blast
  show ?thesis
    by (intro conjI) (rule a, rule b, rule c, rule e)
qed

lemma login_found:
  assumes "distinct (map username (User d))" and "u \<in> set (User d)" and "username u = un"
  shows "login un pw d =
           (if password u \<noteq> pw then ((401, message ''Invalid credentials''), d)
            else ((200, message ''Login successful''), d))"
proof -
  from assms have "find (\<lambda>r. username r = un) (User d) = Some u"
    using find_unique_key [of username "User d" u] by simp
  then show ?thesis by (simp add: login_def)
qed

lemma login_absent:
  assumes "un \<notin> set (map username (User d))"
  shows "login un pw d = ((400, message ''User not found''), d)"
proof -
  from assms have "find (\<lambda>r. username r = un) (User d) = None"
    by (rule find_absent_key)
  then show ?thesis by (simp add: login_def)
qed

text \<open>
  Claim C4. \<^verbatim>\<open>POST /api/login\<close> on a collection with unique usernames: the answer
  is 200 exactly when a record with the submitted username exists and its
  stored password equals the submitted one (equality of strings, character
  by character); it is 400, "User not found", exactly when no record has that
  username, and 401, "Invalid credentials", exactly when the record exists
  and the passwords differ. The database is returned as it was.
\<close>

theorem login_spec:
  assumes uniq: "distinct (map username (User d))"
  shows "(fst (login un pw d) = (200, message ''Login successful'')
            \<longleftrightarrow> (\<exists>u \<in> set (User d). username u = un \<and> password u = pw))
       \<and> (fst (login un pw d) = (400, message ''User not found'')
            \<longleftrightarrow> un \<notin> set (map username (User d)))
       \<and> (fst (login un pw d) = (401, message ''Invalid credentials'')
            \<longleftrightarrow> (\<exists>u \<in> set (User d). username u = un \<and> password u \<noteq> pw))
       \<and> snd (login un pw d) = d"
proof (cases "un \<in> set (map username (User d))")
  case False
  then have run: "login un pw d = ((400, message ''User not found''), d)"
    by (rule login_absent)
  from False have n1: "\<not> (\<exists>u \<in> set (User d). username u = un \<and> password u = pw)"
    and n2: "\<not> (\<exists>u \<in> set (User d). username u = un \<and> password u \<noteq> pw)"
    by auto
  show ?thesis unfolding run using False n1 n2 by simp
next
  case True
  then obtain u where mem: "u \<in> set (User d)" and key: "username u = un" by auto
  have only: "\<forall>v \<in> set (User d). username v = un \<longrightarrow> v = u"
    using uniq mem key by (metis distinct_map inj_onD)
  have run: "login un pw d =
           (if password u \<noteq> pw then ((401, message ''Invalid credentials''), d)
            else ((200, message ''Login successful''), d))"
    using uniq mem key by (rule login_found)
  show ?thesis
  proof (cases "password u = pw")
    case same: True
    with run have r: "login un pw d = ((200, message ''Login successful''), d)" by simp
    from mem key same have e1: "\<exists>u \<in> set (User d). username u = un \<and> password u = pw"
      by blast
    from only same have n2: "\<not> (\<exists>u \<in> set (User d). username u = un \<and> password u \<noteq> pw)"
      by blast
    show ?thesis unfolding r using True e1 n2 by simp
  next
    case diff: False
    with run have r: "login un pw d = ((401, message ''Invalid credentials''), d)" by simp
    from mem key diff have e2: "\<exists>u \<in> set (User d). username u = un \<and> password u \<noteq> pw"
      by blast
    from only diff have n1: "\<not> (\<exists>u \<in> set (User d). username u = un \<and> password u = pw)"
      by blast
    show ?thesis unfolding r using True e2 n1 by simp
  qed
qed

theorem login_spec_witness:
  "distinct (map username (User shop))
   \<and> fst (login ''alice'' ''Secret'' shop) = (200, message ''Login successful'')
   \<and> fst (login ''alice'' ''secret'' shop) = (401, message ''Invalid credentials'')
   \<and> fst (login ''bob'' ''Secret'' shop) = (400, message ''User not found'')
   \<and> snd (login ''alice'' ''Secret'' shop) = shop"
proof -
  have us: "User shop = [alice]" by (simp add: shop_def)
  have uniq: "distinct (map username (User shop))" by (simp add: us)
  have ok: "\<exists>u \<in> set (User shop). username u = ''alice'' \<and> password u = ''Secret''"
    and bad: "\<exists>u \<in> set (User shop). username u = ''alice'' \<and> password u \<noteq> ''secret''"
    and none: "''bob'' \<notin> set (map username (User shop))"
    by (simp_all add: us alice_def)
  from login_spec [OF uniq, of "''alice''" "''Secret''"] ok
  have a: "fst (login ''alice'' ''Secret'' shop) = (200, message ''Login successful'')"
    and e: "snd (login ''alice'' ''Secret'' shop) = shop"
    by blast+
  from login_spec [OF uniq, of "''alice''" "''secret''"] bad
  have b: "fst (login ''alice'' ''secret'' shop) = (401, message ''Invalid credentials'')"
    by blast
  from login_spec [OF uniq, of "''bob''" "''Secret''"] none
  have c: "fst (login ''bob'' ''Secret'' shop) = (400, message ''User not found'')"
    by blast
  from uniq a b c e show ?thesis by blast
qed

lemma user_projection:
  "''password'' \<notin> fst ` set (exclude_fields [''password''] (user_fields u))
   \<and> map_of (exclude_fields [''password''] (user_fields u)) ''username'' = Some (JStr (username u))
   \<and> map_of (exclude_fields [''password''] (user_fields u)) ''email'' = Some (JStr (email u))
   \<and> map_of (exclude_fields [''password''] (user_fields u)) ''phone'' = Some (JStr (phone u))"
  by (simp add: exclude_fields_def user_fields_def)

text \<open>
  Claim C7. \<^verbatim>\<open>GET /api/users\<close> returns one document for each stored user, in
  order; no returned document has a \<^verbatim>\<open>password\<close> field, and each has the
  \<^verbatim>\<open>username\<close>, \<^verbatim>\<open>email\<close> and \<^verbatim>\<open>phone\<close> of its user.
\<close>

theorem list_users_spec:
  "\<exists>docs. list_users d = ((200, JArr (map JObj docs)), d)
     \<and> length docs = length (User d)
     \<and> (\<forall>i < length docs.
          ''password'' \<notin> fst ` set (docs ! i)
          \<and> map_of (docs ! i) ''username'' = Some (JStr (username (User d ! i)))
          \<and> map_of (docs ! i) ''email'' = Some (JStr (email (User d ! i)))
          \<and> map_of (docs ! i) ''phone'' = Some (JStr (phone (User d ! i))))"
proof (intro exI conjI allI impI)
  let ?docs = "map (\<lambda>u. exclude_fields [''password''] (user_fields u)) (User d)"
  show "list_users d = ((200, JArr (map JObj ?docs)), d)"
    by (simp add: list_users_def comp_def)
  show "length ?docs = length (User d)" by simp
  fix i
  assume "i < length ?docs"
  then have nth: "?docs ! i = exclude_fields [''password''] (user_fields (User d ! i))"
    by simp
  show "''password'' \<notin> fst ` set (?docs ! i)"
    and "map_of (?docs ! i) ''username'' = Some (JStr (username (User d ! i)))"
    and "map_of (?docs ! i) ''email'' = Some (JStr (email (User d ! i)))"
    and "map_of (?docs ! i) ''phone'' = Some (JStr (phone (User d ! i)))"
    unfolding nth using user_projection [of "User d ! i"] by blast+
qed

theorem list_users_spec_witness:
  "\<exists>docs. list_users shop = ((200, JArr (map JObj docs)), shop)
     \<and> length docs = 1
     \<and> ''password'' \<notin> fst ` set (docs ! 0)
     \<and> map_of (docs ! 0) ''username'' = Some (JStr ''alice'')
     \<and> map_of (docs ! 0) ''email'' = Some (JStr ''alice@example.org'')
     \<and> map_of (docs ! 0) ''phone'' = Some (JStr ''555-0100'')"
proof -
  have us: "User shop = [alice]" by (simp add: shop_def)
  from list_users_spec [of shop] obtain docs where
    run: "list_users shop = ((200, JArr (map JObj docs)), shop)"
    and len: "length docs = length (User shop)"
    and fields: "\<forall>i < length docs.
          ''password'' \<notin> fst ` set (docs ! i)
          \<and> map_of (docs ! i) ''username'' = Some (JStr (username (User shop ! i)))
          \<and> map_of (docs ! i) ''email'' = Some (JStr (email (User shop ! i)))
          \<and> map_of (docs ! i) ''phone'' = Some (JStr (phone (User shop ! i)))"
    by blast
  from len us have one: "length docs = 1" by simp
  then have "0 < length docs" by simp
  with fields have
    "''password'' \<notin> fst ` set (docs ! 0)
      \<and> map_of (docs ! 0) ''username'' = Some (JStr (username (User shop ! 0)))
      \<and> map_of (docs ! 0) ''email'' = Some (JStr (email (User shop ! 0)))
      \<and> map_of (docs ! 0) ''phone'' = Some (JStr (phone (User shop ! 0)))"
    by blast
  then have
    "''password'' \<notin> fst ` set (docs ! 0)
      \<and> map_of (docs ! 0) ''username'' = Some (JStr ''alice'')
      \<and> map_of (docs ! 0) ''email'' = Some (JStr ''alice@example.org'')
      \<and> map_of (docs ! 0) ''phone'' = Some (JStr ''555-0100'')"
    by (simp add: us alice_def)
  with run one show ?thesis by blast
qed

section \<open>Adding a product\<close>

lemma addProduct_duplicate:
  assumes "k \<in> set (map product_id (Product d))"
  shows "addProduct (Some k) b_name b_type b_price b_purchasePrice b_quantity b_rack d =
           ((500, error ''Failed to add product''), d)"
proof (cases "new_Product (new_oid (map p_oid (Product d))) (Some k) b_name b_type b_price
                b_purchasePrice b_quantity b_rack")
  case (Inl e)
  then show ?thesis by (simp add: addProduct_def)
next
  case (Inr p)
  then have "product_id p = k"
    by (auto simp: new_Product_def split: option.splits if_splits)
  with assms have "insert_product p d = Inl DuplicateKeyError"
    by (simp add: insert_product_def)
  with Inr show ?thesis by (simp add: addProduct_def)
qed

lemma addProduct_created:
  assumes fresh: "k \<notin> set (map product_id (Product d))"
    and req: "k \<noteq> []" "n \<noteq> []"
  shows "addProduct (Some k) (Some n) b_type (Some pr) b_purchasePrice (Some q) b_rack d =
           ((201, message ''Product added successfully''),
            d\<lparr>Product := Product d @
                 [\<lparr>p_oid = new_oid (map p_oid (Product d)), product_id = k, name = n,
                   ptype = b_type, price = pr,
                   purchasePrice = (case b_purchasePrice of None \<Rightarrow> 0 | Some v \<Rightarrow> v),
                   quantity = q, rack = b_rack\<rparr>]\<rparr>)"
proof -
  have "new_oid (map p_oid (Product d)) \<notin> p_oid ` set (Product d)"
    using new_oid_fresh [of "map p_oid (Product d)"] by simp
  moreover from fresh have "k \<notin> product_id ` set (Product d)" by simp
  ultimately show ?thesis
    using req
    by (simp add: addProduct_def new_Product_def insert_product_def required_string_def)
qed

text \<open>A body that fails the validation of \<^verbatim>\<open>save()\<close> is answered 500 and adds nothing.\<close>

lemma addProduct_invalid:
  assumes "\<not> (\<exists>k n pr q. b_product_id = Some k \<and> b_name = Some n \<and> b_price = Some pr
                \<and> b_quantity = Some q \<and> k \<noteq> [] \<and> n \<noteq> [])"
  shows "addProduct b_product_id b_name b_type b_price b_purchasePrice b_quantity b_rack d =
           ((500, error ''Failed to add product''), d)"
proof -
  from assms have "new_Product (new_oid (map p_oid (Product d))) b_product_id b_name b_type
      b_price b_purchasePrice b_quantity b_rack = Inl ValidationError"
    by (auto simp: new_Product_def required_string_def split: option.splits)
  then show ?thesis by (simp add: addProduct_def)
qed

text \<open>
  Claim C8, as the code has it. \<^verbatim>\<open>POST /api/products\<close>: a body whose \<^verbatim>\<open>product_id\<close>
  is that of a stored product is answered 500 (the unique index rejects the
  insert) and the collection is as before, so its size does not grow. A body
  that lacks \<^verbatim>\<open>product_id\<close>, \<^verbatim>\<open>name\<close>, \<^verbatim>\<open>price\<close> or \<^verbatim>\<open>quantity\<close>, or whose
  \<^verbatim>\<open>product_id\<close> or \<^verbatim>\<open>name\<close> is empty, is answered 500 as well and adds nothing.
  A body with a new \<^verbatim>\<open>product_id\<close> and these required fields appends exactly one
  record and is answered 201 with the acknowledgement message, which does not
  contain the record.
\<close>

theorem addProduct_spec:
  "(\<forall>k. b_product_id = Some k \<and> k \<in> set (map product_id (Product d)) \<longrightarrow>
        addProduct b_product_id b_name b_type b_price b_purchasePrice b_quantity b_rack d =
          ((500, JObj [(''error'', JStr ''Failed to add product'')]), d))
   \<and> (\<not> (\<exists>k n pr q. b_product_id = Some k \<and> b_name = Some n \<and> b_price = Some pr
              \<and> b_quantity = Some q \<and> k \<noteq> [] \<and> n \<noteq> []) \<longrightarrow>
        addProduct b_product_id b_name b_type b_price b_purchasePrice b_quantity b_rack d =
          ((500, JObj [(''error'', JStr ''Failed to add product'')]), d))
   \<and> (\<forall>k n pr q.
        b_product_id = Some k \<and> b_name = Some n \<and> b_price = Some pr \<and> b_quantity = Some q
        \<and> k \<noteq> [] \<and> n \<noteq> [] \<and> k \<notin> set (map product_id (Product d)) \<longrightarrow>
        addProduct b_product_id b_name b_type b_price b_purchasePrice b_quantity b_rack d =
          ((201, JObj [(''message'', JStr ''Product added successfully'')]),
           d\<lparr>Product := Product d @
                [\<lparr>p_oid = new_oid (map p_oid (Product d)), product_id = k, name = n,
                  ptype = b_type, price = pr,
                  purchasePrice = (case b_purchasePrice of None \<Rightarrow> 0 | Some v \<Rightarrow> v),
                  quantity = q, rack = b_rack\<rparr>]\<rparr>)
        \<and> length (Product (snd (addProduct b_product_id b_name b_type b_price b_purchasePrice
                                   b_quantity b_rack d))) = Suc (length (Product d)))"
proof (intro conjI allI impI)
  fix k
  assume "b_product_id = Some k \<and> k \<in> set (map product_id (Product d))"
  then have "addProduct b_product_id b_name b_type b_price b_purchasePrice b_quantity b_rack d =
          ((500, error ''Failed to add product''), d)"
    using addProduct_duplicate [of k d] by blast
  then show "addProduct b_product_id b_name b_type b_price b_purchasePrice b_quantity b_rack d =
          ((500, JObj [(''error'', JStr ''Failed to add product'')]), d)"
    by (simp add: error_def)
next
  assume "\<not> (\<exists>k n pr q. b_product_id = Some k \<and> b_name = Some n \<and> b_price = Some pr
              \<and> b_quantity = Some q \<and> k \<noteq> [] \<and> n \<noteq> [])"
  then have "addProduct b_product_id b_name b_type b_price b_purchasePrice b_quantity b_rack d =
          ((500, error ''Failed to add product''), d)"
    by (rule addProduct_invalid)
  then show "addProduct b_product_id b_name b_type b_price b_purchasePrice b_quantity b_rack d =
          ((500, JObj [(''error'', JStr ''Failed to add product'')]), d)"
    by (simp add: error_def)
next
  fix k n pr q
  assume a: "b_product_id = Some k \<and> b_name = Some n \<and> b_price = Some pr \<and> b_quantity = Some q
        \<and> k \<noteq> [] \<and> n \<noteq> [] \<and> k \<notin> set (map product_id (Product d))"
  then have "addProduct b_product_id b_name b_type b_price b_purchasePrice b_quantity b_rack d =
          ((201, message ''Product added successfully''),
           d\<lparr>Product := Product d @
                [\<lparr>p_oid = new_oid (map p_oid (Product d)), product_id = k, name = n,
                  ptype = b_type, price = pr,
                  purchasePrice = (case b_purchasePrice of None \<Rightarrow> 0 | Some v \<Rightarrow> v),
                  quantity = q, rack = b_rack\<rparr>]\<rparr>)"
    using addProduct_created [of k d n b_type pr b_purchasePrice q b_rack] by blast
  then have run: "addProduct b_product_id b_name b_type b_price b_purchasePrice b_quantity b_rack d =
          ((201, JObj [(''message'', JStr ''Product added successfully'')]),
           d\<lparr>Product := Product d @
                [\<lparr>p_oid = new_oid (map p_oid (Product d)), product_id = k, name = n,
                  ptype = b_type, price = pr,
                  purchasePrice = (case b_purchasePrice of None \<Rightarrow> 0 | Some v \<Rightarrow> v),
                  quantity = q, rack = b_rack\<rparr>]\<rparr>)"
    by (simp add: message_def)
  then show "addProduct b_product_id b_name b_type b_price b_purchasePrice b_quantity b_rack d =
          ((201, JObj [(''message'', JStr ''Product added successfully'')]),
           d\<lparr>Product := Product d @
                [\<lparr>p_oid = new_oid (map p_oid (Product d)), product_id = k, name = n,
                  ptype = b_type, price = pr,
                  purchasePrice = (case b_purchasePrice of None \<Rightarrow> 0 | Some v \<Rightarrow> v),
                  quantity = q, rack = b_rack\<rparr>]\<rparr>)" .
  from run show "length (Product (snd (addProduct b_product_id b_name b_type b_price
                    b_purchasePrice b_quantity b_rack d))) = Suc (length (Product d))"
    by simp
qed

text \<open>
  The claim as the specification words it fails on a body with a new
  \<^verbatim>\<open>product_id\<close> and an empty name, and on one without a price: nothing is
  persisted and the answer is 500, not 201.
\<close>

theorem addProduct_spec_counterexample:
  "Product shop = [pen, ink]
   \<and> product_id pen \<noteq> ''P3'' \<and> product_id ink \<noteq> ''P3''
   \<and> addProduct (Some ''P3'') (Some []) None (Some 2) None (Some (Num 50)) None shop =
       ((500, JObj [(''error'', JStr ''Failed to add product'')]), shop)
   \<and> addProduct (Some ''P3'') (Some ''Pencil'') None None None (Some (Num 50)) None shop =
       ((500, JObj [(''error'', JStr ''Failed to add product'')]), shop)"
proof -
  have ps: "Product shop = [pen, ink]" by (simp add: shop_def)
  have ids: "product_id pen \<noteq> ''P3'' \<and> product_id ink \<noteq> ''P3''"
    by (simp add: pen_def ink_def)
  have a: "addProduct (Some ''P3'') (Some []) None (Some 2) None (Some (Num 50)) None shop =
       ((500, JObj [(''error'', JStr ''Failed to add product'')]), shop)"
    by (simp add: addProduct_def new_Product_def required_string_def error_def)
  have b: "addProduct (Some ''P3'') (Some ''Pencil'') None None None (Some (Num 50)) None shop =
       ((500, JObj [(''error'', JStr ''Failed to add product'')]), shop)"
    by (simp add: addProduct_def new_Product_def required_string_def error_def)
  from ps ids a b show ?thesis by blast
qed

theorem addProduct_spec_witness:
  "addProduct (Some ''P1'') (Some ''Pencil'') None (Some 2) None (Some (Num 50)) None shop =
     ((500, JObj [(''error'', JStr ''Failed to add product'')]), shop)
   \<and> addProduct (Some ''P3'') (Some []) None (Some 2) None (Some (Num 50)) None shop =
       ((500, JObj [(''error'', JStr ''Failed to add product'')]), shop)
   \<and> addProduct (Some ''P3'') (Some ''Pencil'') None (Some 2) None (Some (Num 50)) None shop =
       ((201, JObj [(''message'', JStr ''Product added successfully'')]),
        shop\<lparr>Product := [pen, ink,
               \<lparr>p_oid = 3, product_id = ''P3'', name = ''Pencil'', ptype = None, price = 2,
                 purchasePrice = 0, quantity = Num 50, rack = None\<rparr>]\<rparr>)
   \<and> length (Product (snd (addProduct (Some ''P3'') (Some ''Pencil'') None (Some 2) None
                              (Some (Num 50)) None shop))) = 3"
proof -
  have ps: "Product shop = [pen, ink]" by (simp add: shop_def)
  have dup: "Some ''P1'' = Some ''P1'' \<and> ''P1'' \<in> set (map product_id (Product shop))"
    by (simp add: ps pen_def)
  have bad: "\<not> (\<exists>k n pr q. Some ''P3'' = Some k \<and> Some ([] :: string) = Some n
      \<and> Some (2::int) = Some pr \<and> Some (Num 50) = Some q \<and> k \<noteq> [] \<and> n \<noteq> [])"
    by simp
  have new: "Some ''P3'' = Some ''P3'' \<and> Some ''Pencil'' = Some ''Pencil''
      \<and> Some (2::int) = Some 2 \<and> Some (Num 50) = Some (Num 50)
      \<and> ''P3'' \<noteq> [] \<and> ''Pencil'' \<noteq> [] \<and> ''P3'' \<notin> set (map product_id (Product shop))"
    by (simp add: ps pen_def ink_def)
  have fresh: "new_oid [p_oid pen, p_oid ink] = 3"
    by (simp add: pen_def ink_def new_oid_def)
  from addProduct_spec [of "Some ''P1''" shop "Some ''Pencil''" None "Some 2" None
      "Some (Num 50)" None] dup
  have a: "addProduct (Some ''P1'') (Some ''Pencil'') None (Some 2) None (Some (Num 50)) None shop =
     ((500, JObj [(''error'', JStr ''Failed to add product'')]), shop)"
    by blast
  from addProduct_spec [of "Some ''P3''" shop "Some []" None "Some 2" None
      "Some (Num 50)" None] bad
  have e: "addProduct (Some ''P3'') (Some []) None (Some 2) None (Some (Num 50)) None shop =
     ((500, JObj [(''error'', JStr ''Failed to add product'')]), shop)"
    by blast
  from addProduct_spec [of "Some ''P3''" shop "Some ''Pencil''" None "Some 2" None
      "Some (Num 50)" None] new
  have b0: "addProduct (Some ''P3'') (Some ''Pencil'') None (Some 2) None (Some (Num 50)) None shop =
          ((201, JObj [(''message'', JStr ''Product added successfully'')]),
           shop\<lparr>Product := Product shop @
                [\<lparr>p_oid = new_oid (map p_oid (Product shop)), product_id = ''P3'',
                  name = ''Pencil'', ptype = None, price = 2,
                  purchasePrice = (case None of None \<Rightarrow> 0 | Some v \<Rightarrow> v),
                  quantity = Num 50, rack = None\<rparr>]\<rparr>)"
    and c0: "length (Product (snd (addProduct (Some ''P3'') (Some ''Pencil'') None (Some 2) None
                              (Some (Num 50)) None shop))) = Suc (length (Product shop))"
    by blast+
  from b0 have b: "addProduct (Some ''P3'') (Some ''Pencil'') None (Some 2) None (Some (Num 50)) None shop =
       ((201, JObj [(''message'', JStr ''Product added successfully'')]),
        shop\<lparr>Product := [pen, ink,
               \<lparr>p_oid = 3, product_id = ''P3'', name = ''Pencil'', ptype = None, price = 2,
                 purchasePrice = 0, quantity = Num 50, rack = None\<rparr>]\<rparr>)"
    by (simp add: ps fresh)
  from c0 have c: "length (Product (snd (addProduct (Some ''P3'') (Some ''Pencil'') None (Some 2)
                      None (Some (Num 50)) None shop))) = 3"
    by (simp add: ps)
  show ?thesis
    by (intro conjI) (rule a, rule e, rule b, rule c)
qed

section \<open>Replacing the fields of a product\<close>

lemma find_update_first:
  "find P xs = Some p \<Longrightarrow> (\<forall>x. P x \<longrightarrow> P (f x)) \<Longrightarrow>
   find P (update_first P f xs) = Some (f p)"
  by (induction xs) (auto split: if_splits)

lemma apply_update_keeps_keys:
  "p_oid (apply_update upd p) = p_oid p \<and> product_id (apply_update upd p) = product_id p"
  by (simp add: apply_update_def)

lemma updateProduct_found:
  assumes cast: "castObjectId idp = Some i"
    and found: "find (\<lambda>r. p_oid r = i) (Product d) = Some p"
  shows "updateProduct idp b_quantity b_name b_price b_purchasePrice b_type b_rack d =
           (let upd = \<lparr>set_quantity = b_quantity, set_name = b_name, set_price = b_price,
                       set_purchasePrice =
                         Some (case b_purchasePrice of None \<Rightarrow> 0 | Some v \<Rightarrow> v),
                       set_type = b_type, set_rack = b_rack\<rparr>
            in ((200, JObj [(''message'', JStr ''Product updated successfully''),
                            (''product'', JObj (product_fields (apply_update upd p)))]),
                d\<lparr>Product := update_first (\<lambda>r. p_oid r = i) (apply_update upd) (Product d)\<rparr>))"
  using cast found by (simp add: updateProduct_def findByIdAndUpdate_def Let_def)

lemma updateProduct_absent:
  assumes cast: "castObjectId idp = Some i"
    and absent: "i \<notin> set (map p_oid (Product d))"
  shows "updateProduct idp b_quantity b_name b_price b_purchasePrice b_type b_rack d =
           ((404, error ''Product not found''), d)"
proof -
  from absent have "find (\<lambda>r. p_oid r = i) (Product d) = None"
    by (rule find_absent_key)
  with cast show ?thesis
    by (simp add: updateProduct_def findByIdAndUpdate_def Let_def)
qed

text \<open>The document that the handlers send for a product has each stored path.\<close>

lemma product_fields_lookup:
  "map_of (product_fields p) ''_id'' = Some (JOid (p_oid p))
   \<and> map_of (product_fields p) ''product_id'' = Some (JStr (product_id p))
   \<and> map_of (product_fields p) ''name'' = Some (JStr (name p))
   \<and> map_of (product_fields p) ''type'' = map_option JStr (ptype p)
   \<and> map_of (product_fields p) ''price'' = Some (JNum (price p))
   \<and> map_of (product_fields p) ''purchasePrice'' = Some (JNum (purchasePrice p))
   \<and> map_of (product_fields p) ''quantity'' = Some (JDouble (quantity p))
   \<and> map_of (product_fields p) ''rack'' = map_option JStr (rack p)"
  by (cases "ptype p"; cases "rack p") (simp_all add: product_fields_def optional_field_def)

lemma updateProduct_cast_error:
  assumes "castObjectId idp = None"
  shows "updateProduct idp b_quantity b_name b_price b_purchasePrice b_type b_rack d =
           ((500, error ''Failed to update product''), d)"
  using assms by (simp add: updateProduct_def findByIdAndUpdate_def Let_def)

text \<open>
  Claim C5, as the code has it. \<^verbatim>\<open>PUT /api/products/update/:id\<close> on a collection
  with unique \<^verbatim>\<open>_id\<close>: a path parameter that is not an ObjectId is answered 500
  and changes nothing. For one that is an ObjectId, when no product has that
  \<^verbatim>\<open>_id\<close> the answer is 404 and the database is unchanged, so nothing is created
  or modified. Otherwise \<^verbatim>\<open>quantity\<close>, \<^verbatim>\<open>name\<close>, \<^verbatim>\<open>price\<close>, \<^verbatim>\<open>type\<close> and \<^verbatim>\<open>rack\<close> of
  that product take the values of the body, \<^verbatim>\<open>purchasePrice\<close> takes the value of
  the body or 0 when the body has none, \<^verbatim>\<open>product_id\<close> and \<^verbatim>\<open>_id\<close> of the record
  are as before, every other record is untouched, and the answer is 200 with
  the updated record: each of its paths appears in the returned document
  with the value that is now stored.
\<close>

theorem updateProduct_spec:
  assumes uniq: "distinct (map p_oid (Product d))"
  shows "(castObjectId idp = None \<longrightarrow>
            updateProduct idp b_quantity b_name b_price b_purchasePrice b_type b_rack d =
              ((500, JObj [(''error'', JStr ''Failed to update product'')]), d))
       \<and> (\<forall>i. castObjectId idp = Some i \<longrightarrow>
            (i \<notin> set (map p_oid (Product d)) \<longrightarrow>
               updateProduct idp b_quantity b_name b_price b_purchasePrice b_type b_rack d =
                 ((404, JObj [(''error'', JStr ''Product not found'')]), d))
          \<and> (\<forall>p \<in> set (Product d). p_oid p = i \<longrightarrow>
               (\<exists>p'. updateProduct idp b_quantity b_name b_price b_purchasePrice b_type b_rack d =
                        ((200, JObj [(''message'', JStr ''Product updated successfully''),
                                     (''product'', JObj (product_fields p'))]),
                         d\<lparr>Product := map (\<lambda>r. if r = p then p' else r) (Product d)\<rparr>)
                    \<and> quantity p' = (case b_quantity of None \<Rightarrow> quantity p | Some v \<Rightarrow> v)
                    \<and> name p' = (case b_name of None \<Rightarrow> name p | Some v \<Rightarrow> v)
                    \<and> price p' = (case b_price of None \<Rightarrow> price p | Some v \<Rightarrow> v)
                    \<and> purchasePrice p' = (case b_purchasePrice of None \<Rightarrow> 0 | Some v \<Rightarrow> v)
                    \<and> ptype p' = (case b_type of None \<Rightarrow> ptype p | Some v \<Rightarrow> Some v)
                    \<and> rack p' = (case b_rack of None \<Rightarrow> rack p | Some v \<Rightarrow> Some v)
                    \<and> product_id p' = product_id p
                    \<and> p_oid p' = p_oid p
                    \<and> map_of (product_fields p') ''_id'' = Some (JOid (p_oid p))
                    \<and> map_of (product_fields p') ''product_id'' = Some (JStr (product_id p))
                    \<and> map_of (product_fields p') ''name'' = Some (JStr (name p'))
                    \<and> map_of (product_fields p') ''type'' = map_option JStr (ptype p')
                    \<and> map_of (product_fields p') ''price'' = Some (JNum (price p'))
                    \<and> map_of (product_fields p') ''purchasePrice''
                        = Some (JNum (purchasePrice p'))
                    \<and> map_of (product_fields p') ''quantity'' = Some (JDouble (quantity p'))
                    \<and> map_of (product_fields p') ''rack'' = map_option JStr (rack p'))))"
proof (intro conjI impI ballI allI)
  assume "castObjectId idp = None"
  then have "updateProduct idp b_quantity b_name b_price b_purchasePrice b_type b_rack d =
      ((500, error ''Failed to update product''), d)"
    by (rule updateProduct_cast_error)
  then show "updateProduct idp b_quantity b_name b_price b_purchasePrice b_type b_rack d =
      ((500, JObj [(''error'', JStr ''Failed to update product'')]), d)"
    by (simp add: error_def)
next
  fix i
  assume "castObjectId idp = Some i" and "i \<notin> set (map p_oid (Product d))"
  then have "updateProduct idp b_quantity b_name b_price b_purchasePrice b_type b_rack d =
              ((404, error ''Product not found''), d)"
    by (rule updateProduct_absent)
  then show "updateProduct idp b_quantity b_name b_price b_purchasePrice b_type b_rack d =
              ((404, JObj [(''error'', JStr ''Product not found'')]), d)"
    by (simp add: error_def)
next
  fix i p
  assume cast: "castObjectId idp = Some i"
    and mem: "p \<in> set (Product d)" and key: "p_oid p = i"
  let ?upd = "\<lparr>set_quantity = b_quantity, set_name = b_name, set_price = b_price,
                set_purchasePrice = Some (case b_purchasePrice of None \<Rightarrow> 0 | Some v \<Rightarrow> v),
                set_type = b_type, set_rack = b_rack\<rparr>"
  let ?p' = "apply_update ?upd p"
  from uniq mem key have found: "find (\<lambda>r. p_oid r = i) (Product d) = Some p"
    using find_unique_key [of p_oid "Product d" p] by simp
  have "update_first (\<lambda>r. p_oid r = p_oid p) (apply_update ?upd) (Product d)
          = map (\<lambda>r. if r = p then apply_update ?upd r else r) (Product d)"
    using uniq mem by (rule update_first_unique_key)
  then have upd: "update_first (\<lambda>r. p_oid r = i) (apply_update ?upd) (Product d)
          = map (\<lambda>r. if r = p then ?p' else r) (Product d)"
    using key by (simp cong: map_cong)
  have run: "updateProduct idp b_quantity b_name b_price b_purchasePrice b_type b_rack d =
      ((200, JObj [(''message'', JStr ''Product updated successfully''),
                   (''product'', JObj (product_fields ?p'))]),
       d\<lparr>Product := map (\<lambda>r. if r = p then ?p' else r) (Product d)\<rparr>)"
    using updateProduct_found [OF cast found, of b_quantity b_name b_price b_purchasePrice
        b_type b_rack] upd
    by (simp add: Let_def)
  have fields: "quantity ?p' = (case b_quantity of None \<Rightarrow> quantity p | Some v \<Rightarrow> v)
      \<and> name ?p' = (case b_name of None \<Rightarrow> name p | Some v \<Rightarrow> v)
      \<and> price ?p' = (case b_price of None \<Rightarrow> price p | Some v \<Rightarrow> v)
      \<and> purchasePrice ?p' = (case b_purchasePrice of None \<Rightarrow> 0 | Some v \<Rightarrow> v)
      \<and> ptype ?p' = (case b_type of None \<Rightarrow> ptype p | Some v \<Rightarrow> Some v)
      \<and> rack ?p' = (case b_rack of None \<Rightarrow> rack p | Some v \<Rightarrow> Some v)
      \<and> product_id ?p' = product_id p
      \<and> p_oid ?p' = p_oid p"
    by (simp add: apply_update_def)
  have keys: "p_oid ?p' = p_oid p" "product_id ?p' = product_id p"
    by (simp_all add: apply_update_def)
  have sent: "map_of (product_fields ?p') ''_id'' = Some (JOid (p_oid p))
      \<and> map_of (product_fields ?p') ''product_id'' = Some (JStr (product_id p))
      \<and> map_of (product_fields ?p') ''name'' = Some (JStr (name ?p'))
      \<and> map_of (product_fields ?p') ''type'' = map_option JStr (ptype ?p')
      \<and> map_of (product_fields ?p') ''price'' = Some (JNum (price ?p'))
      \<and> map_of (product_fields ?p') ''purchasePrice'' = Some (JNum (purchasePrice ?p'))
      \<and> map_of (product_fields ?p') ''quantity'' = Some (JDouble (quantity ?p'))
      \<and> map_of (product_fields ?p') ''rack'' = map_option JStr (rack ?p')"
    using product_fields_lookup [of ?p'] by (simp only: keys)
  from run fields sent
  show "\<exists>p'. updateProduct idp b_quantity b_name b_price b_purchasePrice b_type b_rack d =
                        ((200, JObj [(''message'', JStr ''Product updated successfully''),
                                     (''product'', JObj (product_fields p'))]),
                         d\<lparr>Product := map (\<lambda>r. if r = p then p' else r) (Product d)\<rparr>)
                    \<and> quantity p' = (case b_quantity of None \<Rightarrow> quantity p | Some v \<Rightarrow> v)
                    \<and> name p' = (case b_name of None \<Rightarrow> name p | Some v \<Rightarrow> v)
                    \<and> price p' = (case b_price of None \<Rightarrow> price p | Some v \<Rightarrow> v)
                    \<and> purchasePrice p' = (case b_purchasePrice of None \<Rightarrow> 0 | Some v \<Rightarrow> v)
                    \<and> ptype p' = (case b_type of None \<Rightarrow> ptype p | Some v \<Rightarrow> Some v)
                    \<and> rack p' = (case b_rack of None \<Rightarrow> rack p | Some v \<Rightarrow> Some v)
                    \<and> product_id p' = product_id p
                    \<and> p_oid p' = p_oid p
                    \<and> map_of (product_fields p') ''_id'' = Some (JOid (p_oid p))
                    \<and> map_of (product_fields p') ''product_id'' = Some (JStr (product_id p))
                    \<and> map_of (product_fields p') ''name'' = Some (JStr (name p'))
                    \<and> map_of (product_fields p') ''type'' = map_option JStr (ptype p')
                    \<and> map_of (product_fields p') ''price'' = Some (JNum (price p'))
                    \<and> map_of (product_fields p') ''purchasePrice''
                        = Some (JNum (purchasePrice p'))
                    \<and> map_of (product_fields p') ''quantity'' = Some (JDouble (quantity p'))
                    \<and> map_of (product_fields p') ''rack'' = map_option JStr (rack p')"
    by (intro exI [of _ ?p']) (simp only: simp_thms)
qed

text \<open>
  The claim as the specification words it fails on a path parameter that is
  not an ObjectId: no record has it as its \<^verbatim>\<open>_id\<close>, and the answer is 500, not
  404.
\<close>

theorem updateProduct_spec_counterexample:
  "Product shop = [pen, ink]
   \<and> castObjectId ''P9'' = None
   \<and> updateProduct ''P9'' (Some (Num 20)) (Some ''Gel pen'') (Some 6) None (Some ''pen'')
        (Some ''B1'') shop =
       ((500, JObj [(''error'', JStr ''Failed to update product'')]), shop)"
proof -
  have ps: "Product shop = [pen, ink]" by (simp add: shop_def)
  have nocast: "castObjectId ''P9'' = None" by (simp add: castObjectId_def)
  then have "updateProduct ''P9'' (Some (Num 20)) (Some ''Gel pen'') (Some 6) None (Some ''pen'')
        (Some ''B1'') shop =
       ((500, JObj [(''error'', JStr ''Failed to update product'')]), shop)"
    by (simp add: updateProduct_def findByIdAndUpdate_def error_def)
  with ps nocast show ?thesis by blast
qed

theorem updateProduct_spec_witness:
  "distinct (map p_oid (Product shop))
   \<and> (\<exists>p'. updateProduct ''000000000000000000000001'' (Some (Num 20)) (Some ''Gel pen'') (Some 6)
               None (Some ''pen'') (Some ''B1'') shop =
               ((200, JObj [(''message'', JStr ''Product updated successfully''),
                            (''product'', JObj (product_fields p'))]),
                shop\<lparr>Product := [p', ink]\<rparr>)
           \<and> quantity p' = Num 20 \<and> name p' = ''Gel pen'' \<and> price p' = 6 \<and> purchasePrice p' = 0
           \<and> ptype p' = Some ''pen'' \<and> rack p' = Some ''B1''
           \<and> product_id p' = ''P1'' \<and> p_oid p' = 1
           \<and> map_of (product_fields p') ''_id'' = Some (JOid 1)
           \<and> map_of (product_fields p') ''product_id'' = Some (JStr ''P1'')
           \<and> map_of (product_fields p') ''name'' = Some (JStr ''Gel pen'')
           \<and> map_of (product_fields p') ''type'' = Some (JStr ''pen'')
           \<and> map_of (product_fields p') ''price'' = Some (JNum 6)
           \<and> map_of (product_fields p') ''purchasePrice'' = Some (JNum 0)
           \<and> map_of (product_fields p') ''quantity'' = Some (JDouble (Num 20))
           \<and> map_of (product_fields p') ''rack'' = Some (JStr ''B1''))
   \<and> updateProduct ''000000000000000000000009'' (Some (Num 20)) (Some ''Gel pen'') (Some 6) None
        (Some ''pen'') (Some ''B1'') shop =
       ((404, JObj [(''error'', JStr ''Product not found'')]), shop)
   \<and> updateProduct ''P9'' (Some (Num 20)) (Some ''Gel pen'') (Some 6) None
        (Some ''pen'') (Some ''B1'') shop =
       ((500, JObj [(''error'', JStr ''Failed to update product'')]), shop)"
proof -
  have ps: "Product shop = [pen, ink]" by (simp add: shop_def)
  have uniq: "distinct (map p_oid (Product shop))"
    by (simp add: ps pen_def ink_def)
  have key: "p_oid pen = 1" and pid: "product_id pen = ''P1''" and ne: "ink \<noteq> pen"
    and absent: "9 \<notin> set (map p_oid (Product shop))"
    by (simp_all add: ps pen_def ink_def)
  have nocast: "castObjectId ''P9'' = None" by (simp add: castObjectId_def)
  have a: "\<exists>p'. updateProduct ''000000000000000000000001'' (Some (Num 20)) (Some ''Gel pen'')
               (Some 6) None (Some ''pen'') (Some ''B1'') shop =
               ((200, JObj [(''message'', JStr ''Product updated successfully''),
                            (''product'', JObj (product_fields p'))]),
                shop\<lparr>Product := [p', ink]\<rparr>)
           \<and> quantity p' = Num 20 \<and> name p' = ''Gel pen'' \<and> price p' = 6 \<and> purchasePrice p' = 0
           \<and> ptype p' = Some ''pen'' \<and> rack p' = Some ''B1''
           \<and> product_id p' = ''P1'' \<and> p_oid p' = 1
           \<and> map_of (product_fields p') ''_id'' = Some (JOid 1)
           \<and> map_of (product_fields p') ''product_id'' = Some (JStr ''P1'')
           \<and> map_of (product_fields p') ''name'' = Some (JStr ''Gel pen'')
           \<and> map_of (product_fields p') ''type'' = Some (JStr ''pen'')
           \<and> map_of (product_fields p') ''price'' = Some (JNum 6)
           \<and> map_of (product_fields p') ''purchasePrice'' = Some (JNum 0)
           \<and> map_of (product_fields p') ''quantity'' = Some (JDouble (Num 20))
           \<and> map_of (product_fields p') ''rack'' = Some (JStr ''B1'')"
    using updateProduct_spec [OF uniq, of "''000000000000000000000001''" "Some (Num 20)"
        "Some ''Gel pen''" "Some 6" None "Some ''pen''" "Some ''B1''"] key pid ne
    by (simp add: ps cast_one cong: conj_cong)
  have b: "updateProduct ''000000000000000000000009'' (Some (Num 20)) (Some ''Gel pen'') (Some 6)
        None (Some ''pen'') (Some ''B1'') shop =
        ((404, JObj [(''error'', JStr ''Product not found'')]), shop)"
    using updateProduct_spec [OF uniq, of "''000000000000000000000009''" "Some (Num 20)"
        "Some ''Gel pen''" "Some 6" None "Some ''pen''" "Some ''B1''"] absent cast_nine
    by blast
  have c: "updateProduct ''P9'' (Some (Num 20)) (Some ''Gel pen'') (Some 6) None
        (Some ''pen'') (Some ''B1'') shop =
       ((500, JObj [(''error'', JStr ''Failed to update product'')]), shop)"
    using updateProduct_spec [OF uniq, of "''P9''" "Some (Num 20)"
        "Some ''Gel pen''" "Some 6" None "Some ''pen''" "Some ''B1''"] nocast
    by blast
  show ?thesis
    by (intro conjI) (rule uniq, rule a, rule b, rule c)
qed

text \<open>
  Claim C10. In the same handler, a field other than \<^verbatim>\<open>purchasePrice\<close> that the
  body omits keeps its stored value, whereas an omitted \<^verbatim>\<open>purchasePrice\<close> is
  written as 0 whatever was stored.
\<close>

theorem updateProduct_omitted_fields:
  assumes cast: "castObjectId idp = Some i"
    and found: "find (\<lambda>r. p_oid r = i) (Product d) = Some p"
  shows "\<exists>p'. find (\<lambda>r. p_oid r = i)
                 (Product (snd (updateProduct idp b_quantity b_name b_price b_purchasePrice
                                  b_type b_rack d))) = Some p'
            \<and> (b_quantity = None \<longrightarrow> quantity p' = quantity p)
            \<and> (b_name = None \<longrightarrow> name p' = name p)
            \<and> (b_price = None \<longrightarrow> price p' = price p)
            \<and> (b_type = None \<longrightarrow> ptype p' = ptype p)
            \<and> (b_rack = None \<longrightarrow> rack p' = rack p)
            \<and> (b_purchasePrice = None \<longrightarrow> purchasePrice p' = 0)"
proof -
  let ?upd = "\<lparr>set_quantity = b_quantity, set_name = b_name, set_price = b_price,
                set_purchasePrice = Some (case b_purchasePrice of None \<Rightarrow> 0 | Some v \<Rightarrow> v),
                set_type = b_type, set_rack = b_rack\<rparr>"
  let ?p' = "apply_update ?upd p"
  have keep: "\<forall>x. p_oid x = i \<longrightarrow> p_oid (apply_update ?upd x) = i"
    by (simp add: apply_update_keeps_keys)
  have "find (\<lambda>r. p_oid r = i) (update_first (\<lambda>r. p_oid r = i) (apply_update ?upd) (Product d))
          = Some ?p'"
    using found keep by (rule find_update_first)
  then have stored: "find (\<lambda>r. p_oid r = i)
                 (Product (snd (updateProduct idp b_quantity b_name b_price b_purchasePrice
                                  b_type b_rack d))) = Some ?p'"
    using updateProduct_found [OF cast found, of b_quantity b_name b_price b_purchasePrice
        b_type b_rack]
    by (simp add: Let_def)
  have fields: "(b_quantity = None \<longrightarrow> quantity ?p' = quantity p)
            \<and> (b_name = None \<longrightarrow> name ?p' = name p)
            \<and> (b_price = None \<longrightarrow> price ?p' = price p)
            \<and> (b_type = None \<longrightarrow> ptype ?p' = ptype p)
            \<and> (b_rack = None \<longrightarrow> rack ?p' = rack p)
            \<and> (b_purchasePrice = None \<longrightarrow> purchasePrice ?p' = 0)"
    by (simp add: apply_update_def)
  from stored fields show ?thesis by (intro exI [of _ ?p']) blast
qed

theorem updateProduct_omitted_fields_witness:
  "castObjectId ''000000000000000000000001'' = Some 1
   \<and> find (\<lambda>r. p_oid r = 1) (Product shop) = Some pen
   \<and> purchasePrice pen = 3
   \<and> (\<exists>p'. find (\<lambda>r. p_oid r = 1)
               (Product (snd (updateProduct ''000000000000000000000001'' None (Some ''Gel pen'')
                                None None None None shop))) = Some p'
           \<and> quantity p' = Num 10 \<and> price p' = 5 \<and> ptype p' = None \<and> rack p' = Some ''A2''
           \<and> purchasePrice p' = 0)"
proof -
  have found: "find (\<lambda>r. p_oid r = 1) (Product shop) = Some pen"
    by (simp add: shop_def pen_def)
  have old: "quantity pen = Num 10" "price pen = 5" "ptype pen = None" "rack pen = Some ''A2''"
    and pp: "purchasePrice pen = 3"
    by (simp_all add: pen_def)
  have new: "\<exists>p'. find (\<lambda>r. p_oid r = 1)
               (Product (snd (updateProduct ''000000000000000000000001'' None (Some ''Gel pen'')
                                None None None None shop))) = Some p'
           \<and> quantity p' = Num 10 \<and> price p' = 5 \<and> ptype p' = None \<and> rack p' = Some ''A2''
           \<and> purchasePrice p' = 0"
    using updateProduct_omitted_fields [OF cast_one found, of None "Some ''Gel pen''" None None
        None None] old
    by simp
  show ?thesis
    by (intro conjI) (rule cast_one, rule found, rule pp, rule new)
qed

section \<open>Recording a purchase\<close>

lemma savePurchase_run:
  "savePurchase body now d =
     ((201, message ''Purchase saved successfully''),
      d\<lparr>Purchase := Purchase d @ [new_Purchase (new_oid (map pu_oid (Purchase d))) now body]\<rparr>)"
proof -
  have "new_oid (map pu_oid (Purchase d)) \<notin> pu_oid ` set (Purchase d)"
    using new_oid_fresh [of "map pu_oid (Purchase d)"] by simp
  then show ?thesis
    by (simp add: savePurchase_def insert_purchase_def new_Purchase_def Let_def)
qed

lemma purchase_total_field:
  "total p = Some t \<Longrightarrow> map_of (purchase_fields p) ''total'' = Some (JNum t)"
  by (simp add: purchase_fields_def optional_field_def)

lemma purchase_date_field: "map_of (purchase_fields p) ''date'' = Some (JDate (date p))"
  by (cases "total p") (simp_all add: purchase_fields_def optional_field_def)

text \<open>
  Claim C6. \<^verbatim>\<open>POST /api/purchases\<close> is answered 201 and leaves the Product and
  User collections as they were: no stock is decremented. For a body with
  customer information, a products array and a total, exactly one purchase
  record is appended, with the customer, the products and the total of the
  body and, when the body has no date, the server's current time as its date;
  \<^verbatim>\<open>GET /api/purchases\<close> then returns that record last, with the same total.
\<close>

theorem savePurchase_spec:
  "fst (savePurchase body now d) = (201, message ''Purchase saved successfully'')
   \<and> Product (snd (savePurchase body now d)) = Product d
   \<and> User (snd (savePurchase body now d)) = User d
   \<and> (\<forall>c ps t. b_customer body = Some c \<and> b_products body = Some ps \<and> b_total body = Some t \<longrightarrow>
        (\<exists>p. Purchase (snd (savePurchase body now d)) = Purchase d @ [p]
            \<and> customer p = c \<and> products p = ps \<and> total p = Some t
            \<and> date p = (case b_date body of None \<Rightarrow> now | Some x \<Rightarrow> x)
            \<and> fst (list_purchases (snd (savePurchase body now d))) =
                (200, JArr (map (\<lambda>r. JObj (purchase_fields r)) (Purchase d)
                            @ [JObj (purchase_fields p)]))
            \<and> map_of (purchase_fields p) ''total'' = Some (JNum t)
            \<and> (b_date body = None \<longrightarrow> map_of (purchase_fields p) ''date'' = Some (JDate now))))"
proof (intro conjI allI impI)
  show "fst (savePurchase body now d) = (201, message ''Purchase saved successfully'')"
    and "Product (snd (savePurchase body now d)) = Product d"
    and "User (snd (savePurchase body now d)) = User d"
    by (simp_all add: savePurchase_run)
next
  fix c ps t
  assume a: "b_customer body = Some c \<and> b_products body = Some ps \<and> b_total body = Some t"
  let ?p = "new_Purchase (new_oid (map pu_oid (Purchase d))) now body"
  have stored: "Purchase (snd (savePurchase body now d)) = Purchase d @ [?p]"
    by (simp add: savePurchase_run)
  from a have fields: "customer ?p = c" "products ?p = ps" "total ?p = Some t"
    "date ?p = (case b_date body of None \<Rightarrow> now | Some x \<Rightarrow> x)"
    by (simp_all add: new_Purchase_def)
  have listed: "fst (list_purchases (snd (savePurchase body now d))) =
                (200, JArr (map (\<lambda>r. JObj (purchase_fields r)) (Purchase d)
                            @ [JObj (purchase_fields ?p)]))"
    by (simp add: list_purchases_def stored)
  have tot: "map_of (purchase_fields ?p) ''total'' = Some (JNum t)"
    using fields(3) by (rule purchase_total_field)
  have dat: "b_date body = None \<longrightarrow> map_of (purchase_fields ?p) ''date'' = Some (JDate now)"
    using fields(4) by (simp add: purchase_date_field)
  from stored fields listed tot dat
  show "\<exists>p. Purchase (snd (savePurchase body now d)) = Purchase d @ [p]
            \<and> customer p = c \<and> products p = ps \<and> total p = Some t
            \<and> date p = (case b_date body of None \<Rightarrow> now | Some x \<Rightarrow> x)
            \<and> fst (list_purchases (snd (savePurchase body now d))) =
                (200, JArr (map (\<lambda>r. JObj (purchase_fields r)) (Purchase d)
                            @ [JObj (purchase_fields p)]))
            \<and> map_of (purchase_fields p) ''total'' = Some (JNum t)
            \<and> (b_date body = None \<longrightarrow> map_of (purchase_fields p) ''date'' = Some (JDate now))"
    by (intro exI [of _ ?p]) blast
qed

theorem savePurchase_spec_witness:
  "fst (savePurchase order_body 1700000000000 shop) = (201, message ''Purchase saved successfully'')
   \<and> Product (snd (savePurchase order_body 1700000000000 shop)) = [pen, ink]
   \<and> (\<exists>p. Purchase (snd (savePurchase order_body 1700000000000 shop)) = [p]
          \<and> customer p = \<lparr>c_name = Some ''Ann'', c_place = None,
                            c_phone = Some ''555-0199'', c_address = None\<rparr>
          \<and> products p = [JObj [(''product_id'', JStr ''P1''), (''qty'', JNum 2)]]
          \<and> total p = Some 100 \<and> date p = 1700000000000
          \<and> fst (list_purchases (snd (savePurchase order_body 1700000000000 shop))) =
               (200, JArr [JObj (purchase_fields p)])
          \<and> map_of (purchase_fields p) ''total'' = Some (JNum 100)
          \<and> map_of (purchase_fields p) ''date'' = Some (JDate 1700000000000))"
proof -
  note spec = savePurchase_spec [of order_body 1700000000000 shop]
  have body: "b_customer order_body = Some \<lparr>c_name = Some ''Ann'', c_place = None,
                 c_phone = Some ''555-0199'', c_address = None\<rparr>"
    "b_products order_body = Some [JObj [(''product_id'', JStr ''P1''), (''qty'', JNum 2)]]"
    "b_total order_body = Some 100"
    and nodate: "b_date order_body = None"
    by (simp_all add: order_body_def)
  have empty: "Purchase shop = []" and ps: "Product shop = [pen, ink]"
    by (simp_all add: shop_def)
  have a: "fst (savePurchase order_body 1700000000000 shop) =
      (201, message ''Purchase saved successfully'')"
    using spec by (rule conjunct1)
  have b: "Product (snd (savePurchase order_body 1700000000000 shop)) = [pen, ink]"
    using spec ps by simp
  have c: "\<exists>p. Purchase (snd (savePurchase order_body 1700000000000 shop)) = [p]
          \<and> customer p = \<lparr>c_name = Some ''Ann'', c_place = None,
                            c_phone = Some ''555-0199'', c_address = None\<rparr>
          \<and> products p = [JObj [(''product_id'', JStr ''P1''), (''qty'', JNum 2)]]
          \<and> total p = Some 100 \<and> date p = 1700000000000
          \<and> fst (list_purchases (snd (savePurchase order_body 1700000000000 shop))) =
               (200, JArr [JObj (purchase_fields p)])
          \<and> map_of (purchase_fields p) ''total'' = Some (JNum 100)
          \<and> map_of (purchase_fields p) ''date'' = Some (JDate 1700000000000)"
    using spec by (simp add: body nodate empty)
  show ?thesis
    by (intro conjI) (rule a, rule b, rule c)
qed

section \<open>The two handlers of DELETE /api/products/:id\<close>

lemma dispatch_never_second_delete:
  "dispatch m path = Some (h, params) \<Longrightarrow> h \<noteq> DeleteProductByProductId"
  by (cases m) (auto simp: dispatch_def routes_def split: option.splits)

lemma dispatch_delete:
  "dispatch DELETE path =
     map_option (Pair DeleteProductById)
       (match_path [Lit ''api'', Lit ''products'', Param ''id''] path)"
  by (simp add: dispatch_def routes_def split: option.splits)

lemma deleteProductById_cases:
  "deleteProductById idp d =
     (case castObjectId idp of
        None \<Rightarrow> ((500, message ''Server error''), d)
      | Some i \<Rightarrow>
          if i \<in> set (map p_oid (Product d))
          then ((200, message ''Product deleted successfully''),
                d\<lparr>Product := delete_first (\<lambda>p. p_oid p = i) (Product d)\<rparr>)
          else ((404, message ''Product not found''), d))"
proof (cases "castObjectId idp")
  case None
  then show ?thesis by (simp add: deleteProductById_def findByIdAndDelete_def)
next
  case (Some i)
  show ?thesis
  proof (cases "i \<in> set (map p_oid (Product d))")
    case True
    then have "\<exists>x \<in> set (Product d). p_oid x = i" by auto
    then obtain y where "find (\<lambda>p. p_oid p = i) (Product d) = Some y"
      using find_Some_match [of "Product d" "\<lambda>p. p_oid p = i"] by blast
    with Some True show ?thesis by (simp add: deleteProductById_def findByIdAndDelete_def)
  next
    case False
    then have "find (\<lambda>p. p_oid p = i) (Product d) = None" by (rule find_absent_key)
    with Some False show ?thesis by (simp add: deleteProductById_def findByIdAndDelete_def)
  qed
qed

text \<open>
  Claim C2. Two handlers are registered for \<^verbatim>\<open>DELETE /api/products/:id\<close>, and the
  router never reaches the second one (the delete by \<^verbatim>\<open>product_id\<close>): every
  DELETE request that the application takes is handled by the first, which
  reads the path parameter as an \<^verbatim>\<open>_id\<close>. For a parameter that is an ObjectId,
  the product with that \<^verbatim>\<open>_id\<close> is deleted, or the answer is 404 when there is
  none; \<^verbatim>\<open>product_id\<close> plays no part in either decision.
\<close>

theorem delete_route_spec:
  "(\<forall>m path h params. dispatch m path = Some (h, params) \<longrightarrow> h \<noteq> DeleteProductByProductId)
   \<and> delete_request path d =
       (case match_path [Lit ''api'', Lit ''products'', Param ''id''] path of
          None \<Rightarrow> None
        | Some params \<Rightarrow> map_option (\<lambda>idp. deleteProductById idp d) (map_of params ''id''))
   \<and> (idp \<noteq> [] \<longrightarrow> delete_request [''api'', ''products'', idp] d = Some (deleteProductById idp d))
   \<and> (\<forall>i. castObjectId idp = Some i \<longrightarrow>
         (i \<notin> set (map p_oid (Product d)) \<longrightarrow>
            deleteProductById idp d = ((404, message ''Product not found''), d))
       \<and> (i \<in> set (map p_oid (Product d)) \<longrightarrow>
            deleteProductById idp d =
              ((200, message ''Product deleted successfully''),
               d\<lparr>Product := delete_first (\<lambda>p. p_oid p = i) (Product d)\<rparr>)))
   \<and> (castObjectId idp = None \<longrightarrow>
         deleteProductById idp d = ((500, message ''Server error''), d))"
proof (intro conjI allI impI)
  fix m path h params
  assume "dispatch m path = Some (h, params)"
  then show "h \<noteq> DeleteProductByProductId" by (rule dispatch_never_second_delete)
next
  show "delete_request path d =
       (case match_path [Lit ''api'', Lit ''products'', Param ''id''] path of
          None \<Rightarrow> None
        | Some params \<Rightarrow> map_option (\<lambda>idp. deleteProductById idp d) (map_of params ''id''))"
    by (simp add: delete_request_def dispatch_delete split: option.splits)
next
  assume "idp \<noteq> []"
  then show "delete_request [''api'', ''products'', idp] d = Some (deleteProductById idp d)"
    by (simp add: delete_request_def dispatch_delete lower_char_def)
next
  fix i
  assume "castObjectId idp = Some i" and "i \<notin> set (map p_oid (Product d))"
  then show "deleteProductById idp d = ((404, message ''Product not found''), d)"
    by (simp add: deleteProductById_cases)
next
  fix i
  assume "castObjectId idp = Some i" and "i \<in> set (map p_oid (Product d))"
  then show "deleteProductById idp d =
              ((200, message ''Product deleted successfully''),
               d\<lparr>Product := delete_first (\<lambda>p. p_oid p = i) (Product d)\<rparr>)"
    by (simp add: deleteProductById_cases)
next
  assume "castObjectId idp = None"
  then show "deleteProductById idp d = ((500, message ''Server error''), d)"
    by (simp add: deleteProductById_cases)
qed

theorem delete_route_spec_witness:
  "(\<forall>params. dispatch DELETE [''api'', ''products'', ''000000000000000000000002'']
       \<noteq> Some (DeleteProductByProductId, params))
   \<and> delete_request [''api'', ''products'', ''000000000000000000000002''] hex_shop =
       Some ((200, message ''Product deleted successfully''),
             hex_shop\<lparr>Product := [pen\<lparr>product_id := ''000000000000000000000002''\<rparr>]\<rparr>)
   \<and> delete_request [''api'', ''products'', ''P1''] shop =
       Some ((500, message ''Server error''), shop)"
proof -
  let ?hex = "''000000000000000000000002''"
  note on_hex = delete_route_spec [of "[''api'', ''products'', ?hex]" hex_shop ?hex]
  note on_key = delete_route_spec [of "[''api'', ''products'', ''P1'']" shop "''P1''"]
  have ps: "Product hex_shop = [pen\<lparr>product_id := ?hex\<rparr>, ink]"
    by (simp add: hex_shop_def)
  have stored: "2 \<in> set (map p_oid (Product hex_shop))"
    and removed: "delete_first (\<lambda>p. p_oid p = 2) (Product hex_shop) = [pen\<lparr>product_id := ?hex\<rparr>]"
    by (simp_all add: ps pen_def ink_def)
  have nocast: "castObjectId ''P1'' = None"
    by (simp add: castObjectId_def)
  from on_hex have "\<forall>m path h params. dispatch m path = Some (h, params) \<longrightarrow>
      h \<noteq> DeleteProductByProductId"
    by (rule conjunct1)
  then have a: "\<forall>params. dispatch DELETE [''api'', ''products'', ?hex]
       \<noteq> Some (DeleteProductByProductId, params)"
    by blast
  from on_hex have routed: "delete_request [''api'', ''products'', ?hex] hex_shop =
      Some (deleteProductById ?hex hex_shop)"
    by simp
  from on_hex cast_two stored have "deleteProductById ?hex hex_shop =
      ((200, message ''Product deleted successfully''),
       hex_shop\<lparr>Product := delete_first (\<lambda>p. p_oid p = 2) (Product hex_shop)\<rparr>)"
    by blast
  with routed removed have b: "delete_request [''api'', ''products'', ?hex] hex_shop =
       Some ((200, message ''Product deleted successfully''),
             hex_shop\<lparr>Product := [pen\<lparr>product_id := ?hex\<rparr>]\<rparr>)"
    by simp
  from on_key have routed': "delete_request [''api'', ''products'', ''P1''] shop =
      Some (deleteProductById ''P1'' shop)"
    by simp
  from on_key nocast have "deleteProductById ''P1'' shop = ((500, message ''Server error''), shop)"
    by blast
  with routed' have c: "delete_request [''api'', ''products'', ''P1''] shop =
       Some ((500, message ''Server error''), shop)"
    by simp
  show ?thesis
    by (intro conjI) (rule a, rule b, rule c)
qed

end
